theory Spec2Isabelle
  imports Complex_Main
begin

text \<open>
  A shallow embedding of the algorithm-execution backend: the static security validator,
  the complexity analyzer and regression detector, the docker-based executor and the test
  harness. Everything outside the Python process (docker, the file system, the clock,
  numpy and scipy) answers through explicit parameters of the model; exceptions are
  values; the loops are folds over the lists the source iterates. The definitions come
  first, the proofs after them.
\<close>

section \<open>Python text operations used by the scanners\<close>

text \<open>
  Source text is a Python \<open>str\<close>; it is modelled as a \<open>string\<close> whose characters are
  the code points below 256. The operations below are the ones the source calls:
  \<open>s.startswith(p)\<close>, \<open>sub in s\<close>, \<open>s.strip()\<close>, \<open>s.split(c)\<close> for a one-character
  separator, and \<open>s.split()\<close> (split at runs of whitespace, no empty pieces).
\<close>

fun startswith :: "string \<Rightarrow> string \<Rightarrow> bool" where
  "startswith s [] = True"
| "startswith [] (p # ps) = False"
| "startswith (c # cs) (p # ps) = (c = p \<and> startswith cs ps)"

text \<open>\<open>contains s sub\<close> is Python's \<open>sub in s\<close>: \<open>sub\<close> occurs in \<open>s\<close> as a contiguous piece.\<close>

fun contains :: "string \<Rightarrow> string \<Rightarrow> bool" where
  "contains [] sub = (sub = [])"
| "contains (c # cs) sub = (startswith (c # cs) sub \<or> contains cs sub)"

text \<open>
  The characters \<open>str.strip\<close> and \<open>str.split\<close> treat as whitespace, among the code
  points below 256: tab, line feed, vertical tab, form feed, carriage return, the four
  separators 28 to 31, space, next line (133) and no-break space (160).
\<close>

definition is_space :: "char \<Rightarrow> bool" where
  "is_space c = (of_char c \<in> {9, 10, 11, 12, 13, 28, 29, 30, 31, 32, 133, 160 :: nat})"

definition strip :: "string \<Rightarrow> string" where
  "strip s = rev (dropWhile is_space (rev (dropWhile is_space s)))"

text \<open>\<open>split_on d s\<close> is \<open>s.split(d)\<close> for a single character \<open>d\<close>; it never returns the
  empty list.\<close>

fun split_on :: "char \<Rightarrow> string \<Rightarrow> string list" where
  "split_on d [] = [[]]"
| "split_on d (c # cs) =
     (if c = d then [] # split_on d cs
      else (case split_on d cs of
              [] \<Rightarrow> [[c]]
            | p # ps \<Rightarrow> (c # p) # ps))"

text \<open>\<open>split_ws s\<close> is \<open>s.split()\<close>; \<open>cur\<close> is the word being read.\<close>

fun split_ws_from :: "string \<Rightarrow> string \<Rightarrow> string list" where
  "split_ws_from cur [] = (if cur = [] then [] else [cur])"
| "split_ws_from cur (c # cs) =
     (if is_space c
      then (if cur = [] then split_ws_from [] cs else cur # split_ws_from [] cs)
      else split_ws_from (cur @ [c]) cs)"

definition split_ws :: "string \<Rightarrow> string list" where
  "split_ws s = split_ws_from [] s"

section \<open>Security validator (security\_manager.py)\<close>

text \<open>The exceptions that reach a caller of the modelled functions.\<close>

datatype py_error = TypeError | ValueError string

text \<open>The dataclass \<open>SecurityConfig\<close>; the two lists default to \<open>None\<close>.\<close>

record SecurityConfig =
  max_execution_time :: int
  max_memory_mb :: int
  max_cpu_percent :: real
  max_file_size_mb :: int
  max_open_files :: int
  allowed_imports :: "string list option"
  blocked_functions :: "string list option"
  network_access :: bool
  file_system_access :: bool

definition SecurityConfig_default :: SecurityConfig where
  "SecurityConfig_default =
     \<lparr> max_execution_time = 30, max_memory_mb = 128, max_cpu_percent = 50,
       max_file_size_mb = 10, max_open_files = 64, allowed_imports = None,
       blocked_functions = None, network_access = False, file_system_access = False \<rparr>"

definition default_allowed_imports :: "string list" where
  "default_allowed_imports =
     [''math'', ''json'', ''time'', ''random'', ''itertools'', ''functools'',
      ''collections'', ''heapq'', ''bisect'', ''typing'', ''dataclasses'']"

definition default_blocked_functions :: "string list" where
  "default_blocked_functions =
     [''eval'', ''exec'', ''compile'', ''__import__'', ''open'', ''file'',
      ''input'', ''raw_input'', ''exit'', ''quit'', ''reload'']"

text \<open>
  \<open>SecurityManager.__init__\<close>: the configuration the manager keeps in \<open>self.config\<close>.
  A missing configuration is the default one, and a list left at \<open>None\<close> is replaced by
  its default.
\<close>

definition SecurityManager_init :: "SecurityConfig option \<Rightarrow> SecurityConfig" where
  "SecurityManager_init config =
     (let c = (case config of None \<Rightarrow> SecurityConfig_default | Some c' \<Rightarrow> c');
          c1 = (if allowed_imports c = None
                then c\<lparr>allowed_imports := Some default_allowed_imports\<rparr> else c)
      in (if blocked_functions c1 = None
          then c1\<lparr>blocked_functions := Some default_blocked_functions\<rparr> else c1))"

datatype risk = LOW | MEDIUM | HIGH

record security_report =
  safe :: bool
  warnings :: "string list"
  blocked_items :: "string list"
  risk_level :: risk

definition initial_report :: security_report where
  "initial_report = \<lparr> safe = True, warnings = [], blocked_items = [], risk_level = LOW \<rparr>"

definition suspicious_patterns :: "string list" where
  "suspicious_patterns =
     [''subprocess'', ''os.system'', ''os.popen'', ''os.exec'',
      ''import os'', ''import sys'', ''import subprocess'',
      ''__builtins__'', ''__globals__'', ''__locals__'',
      ''globals()'', ''locals()'', ''vars()'',
      ''setattr'', ''getattr'', ''hasattr'', ''delattr'']"

definition file_operations :: "string list" where
  "file_operations = [''open('', ''file('', ''with open'', ''read('', ''write('']"

text \<open>
  \<open>_extract_module_name\<close>. The slice \<open>import_line[7:]\<close> is \<open>drop 7\<close>; indexing \<open>[0]\<close> into
  an empty list raises \<open>IndexError\<close>, which the source catches and turns into \<open>None\<close>.
\<close>

definition first_dotted_part :: "string \<Rightarrow> string option" where
  "first_dotted_part rest =
     (case split_ws rest of
        [] \<Rightarrow> None
      | w # _ \<Rightarrow> (case split_on (CHR ''.'') w of [] \<Rightarrow> None | m # _ \<Rightarrow> Some m))"

definition extract_module_name :: "string \<Rightarrow> string option" where
  "extract_module_name import_line =
     (if startswith import_line ''import '' then first_dotted_part (drop 7 import_line)
      else if startswith import_line ''from '' then first_dotted_part (drop 5 import_line)
      else None)"

text \<open>The stripped lines of the code that start with \<open>import\<close> or \<open>from\<close>.\<close>

definition import_lines :: "string \<Rightarrow> string list" where
  "import_lines code =
     filter (\<lambda>l. startswith l ''import'' \<or> startswith l ''from'')
       (map strip (split_on (CHR ''\<newline>'') code))"

text \<open>One iteration of each of the four loops of \<open>validate_code_security\<close>.\<close>

definition block_function :: "string \<Rightarrow> string \<Rightarrow> security_report \<Rightarrow> security_report" where
  "block_function code func r =
     (if contains code func
      then r\<lparr> safe := False,
              blocked_items := blocked_items r @ [''Blocked function: '' @ func],
              risk_level := HIGH \<rparr>
      else r)"

definition flag_pattern :: "string \<Rightarrow> string \<Rightarrow> security_report \<Rightarrow> security_report" where
  "flag_pattern code pattern r =
     (if contains code pattern
      then (let r' = r\<lparr> warnings := warnings r @ [''Suspicious pattern: '' @ pattern] \<rparr>
            in if risk_level r' = LOW then r'\<lparr> risk_level := MEDIUM \<rparr> else r')
      else r)"

text \<open>\<open>module_name and module_name not in allowed\<close>: the name is neither \<open>None\<close> nor
  empty, and is not in the list.\<close>

definition unauthorized :: "string list \<Rightarrow> string \<Rightarrow> bool" where
  "unauthorized allowed line =
     (case extract_module_name line of
        None \<Rightarrow> False
      | Some m \<Rightarrow> m \<noteq> [] \<and> m \<notin> set allowed)"

definition flag_import :: "string list \<Rightarrow> string \<Rightarrow> security_report \<Rightarrow> security_report" where
  "flag_import allowed line r =
     (case extract_module_name line of
        None \<Rightarrow> r
      | Some m \<Rightarrow>
          if m \<noteq> [] \<and> m \<notin> set allowed
          then (let r' = r\<lparr> warnings := warnings r @ [''Unauthorized import: '' @ m] \<rparr>
                in if risk_level r' = LOW then r'\<lparr> risk_level := MEDIUM \<rparr> else r')
          else r)"

definition block_file_op :: "bool \<Rightarrow> string \<Rightarrow> string \<Rightarrow> security_report \<Rightarrow> security_report" where
  "block_file_op fs_access code op r =
     (if contains code op
      then (if \<not> fs_access
            then r\<lparr> safe := False,
                    blocked_items := blocked_items r @ [''File operation: '' @ op],
                    risk_level := HIGH \<rparr>
            else r)
      else r)"

text \<open>
  The body of \<open>validate_code_security\<close> for a manager whose configuration holds the
  lists \<open>blocked\<close> and \<open>allowed\<close>: the four loops, in the source's order, over one
  report.
\<close>

definition scan_code :: "string list \<Rightarrow> string list \<Rightarrow> bool \<Rightarrow> string \<Rightarrow> security_report" where
  "scan_code blocked allowed fs_access code =
     (let r1 = fold (block_function code) blocked initial_report;
          r2 = fold (flag_pattern code) suspicious_patterns r1;
          r3 = fold (flag_import allowed) (import_lines code) r2
      in fold (block_file_op fs_access code) file_operations r3)"

text \<open>
  \<open>validate_code_security\<close>. Iterating over \<open>None\<close>, or testing membership in \<open>None\<close>,
  raises \<open>TypeError\<close>: the first loop raises when \<open>blocked_functions\<close> is \<open>None\<close>, the third
  when \<open>allowed_imports\<close> is \<open>None\<close> and some import line yields a non-empty module name.
  When \<open>allowed_imports\<close> is \<open>None\<close> and no import line yields such a name, the third
  loop leaves the report as it is, which is what \<open>flag_import\<close> does for any allowlist.
  A configuration that went through \<open>SecurityManager_init\<close> never takes these branches.
\<close>

definition validate_code_security :: "SecurityConfig \<Rightarrow> string \<Rightarrow> py_error + security_report" where
  "validate_code_security config code =
     (case blocked_functions config of
        None \<Rightarrow> Inl TypeError
      | Some blocked \<Rightarrow>
          (case allowed_imports config of
             None \<Rightarrow>
               (if \<exists>line \<in> set (import_lines code).
                      (case extract_module_name line of None \<Rightarrow> False | Some m \<Rightarrow> m \<noteq> [])
                then Inl TypeError
                else Inr (scan_code blocked [] (file_system_access config) code))
           | Some allowed \<Rightarrow> Inr (scan_code blocked allowed (file_system_access config) code)))"

text \<open>
  The scan as a sequence of single steps, and the reports it passes through:
  \<open>run_steps fs r\<close> lists the report before each step and the final one.
\<close>

definition scan_steps ::
  "string list \<Rightarrow> string list \<Rightarrow> bool \<Rightarrow> string \<Rightarrow> (security_report \<Rightarrow> security_report) list" where
  "scan_steps blocked allowed fs_access code =
     map (block_function code) blocked @
     map (flag_pattern code) suspicious_patterns @
     map (flag_import allowed) (import_lines code) @
     map (block_file_op fs_access code) file_operations"

primrec run_steps :: "('s \<Rightarrow> 's) list \<Rightarrow> 's \<Rightarrow> 's list" where
  "run_steps [] s = [s]"
| "run_steps (f # fs) s = s # run_steps fs (f s)"

definition scan_trace :: "string list \<Rightarrow> string list \<Rightarrow> bool \<Rightarrow> string \<Rightarrow> security_report list" where
  "scan_trace blocked allowed fs_access code =
     run_steps (scan_steps blocked allowed fs_access code) initial_report"

primrec severity :: "risk \<Rightarrow> nat" where
  "severity LOW = 0"
| "severity MEDIUM = 1"
| "severity HIGH = 2"

text \<open>Every blocked item is a HIGH finding, every warning a MEDIUM one.\<close>

definition finding_levels :: "security_report \<Rightarrow> risk list" where
  "finding_levels r = map (\<lambda>_. HIGH) (blocked_items r) @ map (\<lambda>_. MEDIUM) (warnings r)"

section \<open>Complexity analyzer and regression detector (performance\_analytics.py)\<close>


text \<open>The labels of the candidate growth functions: \<open>O(1)\<close>, \<open>O(log n)\<close>, \<open>O(n)\<close>,
  \<open>O(n log n)\<close>, \<open>O(n^2)\<close>, \<open>O(n^3)\<close>, \<open>O(2^n)\<close>.\<close>

datatype complexity = O_1 | O_log_n | O_n | O_n_log_n | O_n2 | O_n3 | O_2n

record ComplexityFit =
  best_fit :: complexity
  r_squared :: real
  coefficients :: "real list"
  residuals :: "real list"
  confidence_interval :: "(string \<times> real) list"

text \<open>The keys of \<open>self.complexity_functions\<close>, in the order the dictionary is filled and
  therefore iterated.\<close>

definition complexity_functions :: "complexity list" where
  "complexity_functions = [O_1, O_log_n, O_n, O_n_log_n, O_n2, O_n3, O_2n]"

text \<open>
  What numpy and scipy compute for one candidate (the source's lines from
  \<open>complexity_values = func(input_sizes)\<close> to \<open>stats.linregress\<close>) is a parameter of the
  model, \<open>numeric\<close>. Its answer is \<open>NoFit\<close> when the candidate leaves the best fit as it
  was: the values hold a NaN or an infinity (\<open>continue\<close>), evaluating them or the
  regression raises (caught, \<open>continue\<close>), or the correlation is NaN (the comparison
  \<open>r_squared > best_r_squared\<close> is then false). Otherwise it is
  \<open>Fitted slope intercept r_value complexity_values\<close>.
\<close>

datatype fit_outcome = NoFit | Fitted real real real "real list"

type_synonym numerics = "complexity \<Rightarrow> int list \<Rightarrow> real list \<Rightarrow> fit_outcome"

record fit_state =
  best :: "complexity option"
  best_r_squared :: real
  best_coeffs :: "real list"
  best_residuals :: "real list"

definition initial_fit_state :: fit_state where
  "initial_fit_state = \<lparr> best = None, best_r_squared = - 1, best_coeffs = [], best_residuals = [] \<rparr>"

text \<open>One iteration of the loop over the candidates. \<open>input_sizes\<close> is not empty here, so
  \<open>max(input_sizes)\<close> is \<open>Max (set input_sizes)\<close>.\<close>

definition try_candidate ::
  "numerics \<Rightarrow> int list \<Rightarrow> real list \<Rightarrow> complexity \<Rightarrow> fit_state \<Rightarrow> fit_state" where
  "try_candidate numeric input_sizes execution_times complexity_name st =
     (if complexity_name = O_2n \<and> Max (set input_sizes) > 20 then st
      else (case numeric complexity_name input_sizes execution_times of
              NoFit \<Rightarrow> st
            | Fitted slope intercept r_value complexity_values \<Rightarrow>
                (let r_squared = r_value ^ 2
                 in if r_squared > best_r_squared st
                    then \<lparr> best = Some complexity_name,
                           best_r_squared = r_squared,
                           best_coeffs = [slope, intercept],
                           best_residuals =
                             map2 (\<lambda>t v. t - (slope * v + intercept))
                               execution_times complexity_values \<rparr>
                    else st)))"

definition calculate_confidence_interval :: "real \<Rightarrow> nat \<Rightarrow> (string \<times> real) list" where
  "calculate_confidence_interval r n =
     (if n < 3 then [(''lower'', 0), (''upper'', 1)]
      else (let margin = (1 - r) / sqrt (real n)
            in [(''lower'', max 0 (r - margin)), (''upper'', min 1 (r + margin))]))"

definition analyze_time_complexity :: "numerics \<Rightarrow> int list \<Rightarrow> real list \<Rightarrow> ComplexityFit" where
  "analyze_time_complexity numeric input_sizes execution_times =
     (if length input_sizes < 3
      then \<lparr> best_fit = O_n, r_squared = 0, coefficients = [], residuals = [],
             confidence_interval = [] \<rparr>
      else (let st = fold (try_candidate numeric input_sizes execution_times)
                       complexity_functions initial_fit_state
            in \<lparr> best_fit = (case best st of None \<Rightarrow> O_n | Some c \<Rightarrow> c),
                 r_squared = best_r_squared st,
                 coefficients = best_coeffs st,
                 residuals = best_residuals st,
                 confidence_interval =
                   calculate_confidence_interval (best_r_squared st) (length input_sizes) \<rparr>))"

definition analyze_space_complexity :: "numerics \<Rightarrow> int list \<Rightarrow> real list \<Rightarrow> ComplexityFit" where
  "analyze_space_complexity numeric input_sizes memory_usages =
     analyze_time_complexity numeric input_sizes memory_usages"





section \<open>Sandbox executor (docker\_executor.py)\<close>

text \<open>
  Values of Python's type \<open>Any\<close> that travel as JSON. Exceptions carry their text
  (\<open>str(e)\<close>); \<open>ContainerError\<close> is the one exception class \<open>_monitor_execution\<close> catches
  by name, and it also carries an exit status.
\<close>

datatype pyval =
    PNone
  | PBool bool
  | PInt int
  | PFloat real
  | PStr string
  | PList "pyval list"
  | PDict "(string \<times> pyval) list"

datatype exn = ContainerError string int | OtherError string

primrec str_of :: "exn \<Rightarrow> string" where
  "str_of (ContainerError msg status) = msg"
| "str_of (OtherError msg) = msg"

record ResourceMetrics =
  cpu_percent :: real
  memory_usage_mb :: real
  memory_limit_mb :: real
  rm_execution_time :: real
  peak_memory_mb :: real
  network_io :: pyval
  disk_io :: pyval

text \<open>The dictionary \<open>_analyze_complexity\<close> returns; the empty dictionary of the failure
  paths is \<open>None\<close>.\<close>

record heuristic_analysis =
  estimated_time_complexity :: complexity
  estimated_space_complexity :: complexity
  confidence :: real
  analysis_method :: string
  ha_execution_time :: real
  memory_usage_bytes :: int

record ExecutionResult =
  success :: bool
  result :: pyval
  error :: "string option"
  er_execution_time :: real
  resource_metrics :: ResourceMetrics
  complexity_analysis :: "heuristic_analysis option"
  stdout :: string
  stderr :: string
  exit_code :: int

text \<open>
  The last line of the sandbox's standard output, once \<open>json.loads\<close> has read it. The
  scripts the executor writes into the sandbox print a dictionary with the keys
  \<open>success\<close>, \<open>result\<close>, \<open>execution_time\<close>, \<open>memory_current\<close>, \<open>memory_peak\<close> and \<open>error\<close>:
  that is \<open>Payload\<close> (\<open>memory_peak\<close> and \<open>error\<close> are read with \<open>.get\<close> and may be
  missing). \<open>Malformed\<close> is a line that is not JSON (\<open>JSONDecodeError\<close>, caught).
  \<open>Unusable msg\<close> is JSON that the later code cannot read, so that it raises an exception
  with text \<open>msg\<close> (a value that is no dictionary, or a dictionary without one of the keys
  read by subscript).
\<close>

record payload =
  p_success :: bool
  p_result :: pyval
  p_execution_time :: real
  p_memory_peak :: "int option"
  p_error :: "string option"

datatype decoded = Malformed | Unusable string | Payload payload

text \<open>The part of \<open>container.stats(stream=False)\<close> that is read. \<open>None\<close> for the whole
  reply stands for a call that raises or a reply that lacks one of the keys read by
  subscript.\<close>

record container_stats =
  cpu_total_usage :: int
  precpu_total_usage :: int
  system_cpu_usage :: int
  presystem_cpu_usage :: int
  memory_stats_usage :: int
  memory_stats_limit :: int
  networks :: "pyval option"
  blkio_stats :: "pyval option"

text \<open>What one container answers to the calls made on it.\<close>

record sandbox =
  wait_reply :: "exn + int"
  logs_reply :: "exn + string \<times> string"
  stats_reply :: "container_stats option"
  stop_raises :: bool

text \<open>
  The steps before the sandbox is launched: \<open>tempfile.mkdtemp\<close>, then writing the two
  files (which includes \<open>json.dumps(test_data)\<close>).
\<close>

datatype preparation = MkdtempFails exn | WriteFails exn | Prepared

text \<open>
  Everything outside the executor during one call of \<open>execute_algorithm\<close>:
  \<open>run_reply n\<close> is what \<open>docker_client.containers.run\<close> answers to the call number \<open>n\<close>
  (counted from 0) that this call of \<open>execute_algorithm\<close> makes; \<open>json_loads\<close> reads a line;
  \<open>perf_counter k\<close> is the \<open>k\<close>-th reading of the clock.
\<close>

record world =
  prepare_reply :: preparation
  run_reply :: "nat \<Rightarrow> exn + sandbox"
  json_loads :: "string \<Rightarrow> decoded"
  perf_counter :: "nat \<Rightarrow> real"

text \<open>The calls that leave the process, in the order they are made.\<close>

datatype effect =
    MakeTempDir
  | WriteFiles
  | RunContainer string
  | WaitContainer
  | ReadLogs
  | ReadStats
  | StopContainer
  | RemoveContainer
  | RemoveTempDir

definition count_runs :: "effect list \<Rightarrow> nat" where
  "count_runs tr = length (filter (\<lambda>e. case e of RunContainer _ \<Rightarrow> True | _ \<Rightarrow> False) tr)"

definition get_empty_metrics :: ResourceMetrics where
  "get_empty_metrics =
     \<lparr> cpu_percent = 0, memory_usage_mb = 0, memory_limit_mb = 128, rm_execution_time = 0,
       peak_memory_mb = 0, network_io = PDict [], disk_io = PDict [] \<rparr>"

text \<open>\<open>_collect_resource_metrics\<close>; \<open>now\<close> is the clock reading taken in it.\<close>

definition collect_resource_metrics :: "sandbox \<Rightarrow> real \<Rightarrow> real \<Rightarrow> ResourceMetrics" where
  "collect_resource_metrics container start_time now =
     (case stats_reply container of
        None \<Rightarrow> get_empty_metrics
      | Some stats \<Rightarrow>
          (let cpu_delta = cpu_total_usage stats - precpu_total_usage stats;
               system_delta = system_cpu_usage stats - presystem_cpu_usage stats;
               cpu = (if system_delta > 0
                      then (real_of_int cpu_delta / real_of_int system_delta) * 100 else 0);
               memory_usage = memory_stats_usage stats;
               memory_limit = memory_stats_limit stats
           in \<lparr> cpu_percent = cpu,
                memory_usage_mb = real_of_int memory_usage / (1024 * 1024),
                memory_limit_mb = real_of_int memory_limit / (1024 * 1024),
                rm_execution_time = now - start_time,
                peak_memory_mb = real_of_int memory_usage / (1024 * 1024),
                network_io = (case networks stats of None \<Rightarrow> PDict [] | Some v \<Rightarrow> v),
                disk_io = (case blkio_stats stats of None \<Rightarrow> PDict [] | Some v \<Rightarrow> v) \<rparr>))"

definition analyze_complexity :: "real \<Rightarrow> int \<Rightarrow> heuristic_analysis" where
  "analyze_complexity execution_time memory_usage =
     \<lparr> estimated_time_complexity =
         (if execution_time > 0.1 then O_n2
          else if execution_time > 0.01 then O_n_log_n
          else if execution_time > 0.001 then O_n
          else O_1),
       estimated_space_complexity =
         (if memory_usage > 50 * 1024 * 1024 then O_n2
          else if memory_usage > 10 * 1024 * 1024 then O_n
          else O_1),
       confidence = 0.7,
       analysis_method = ''heuristic'',
       ha_execution_time = execution_time,
       memory_usage_bytes = memory_usage \<rparr>"

text \<open>The dictionary put in place of a last line that is not JSON.\<close>

definition parse_failure_payload :: payload where
  "parse_failure_payload =
     \<lparr> p_success = False, p_result = PNone, p_execution_time = 0, p_memory_peak = Some 0,
       p_error = Some ''Failed to parse execution result'' \<rparr>"

text \<open>The result built in the \<open>except docker.errors.ContainerError\<close> branch.\<close>

definition container_error_result :: "string \<Rightarrow> int \<Rightarrow> real \<Rightarrow> ExecutionResult" where
  "container_error_result msg status elapsed =
     \<lparr> success = False, result = PNone, error = Some (''Container error: '' @ msg),
       er_execution_time = elapsed, resource_metrics = get_empty_metrics,
       complexity_analysis = None, stdout = [], stderr = msg, exit_code = status \<rparr>"

text \<open>An exception raised inside the \<open>try\<close> of \<open>_monitor_execution\<close>: a \<open>ContainerError\<close>
  is turned into a result, anything else leaves the function.\<close>

definition monitor_raised :: "world \<Rightarrow> exn \<Rightarrow> exn + ExecutionResult" where
  "monitor_raised w e =
     (case e of
        ContainerError msg status \<Rightarrow>
          Inr (container_error_result msg status (perf_counter w 1 - perf_counter w 0))
      | OtherError msg \<Rightarrow> Inl e)"

text \<open>
  \<open>_monitor_execution\<close>, with the calls it makes. \<open>stdout.strip().split('\n')[-1]\<close> is the
  last piece of \<open>split_on\<close>, which is never empty. The metrics are collected before the
  payload's entries are read, so a payload that cannot be read raises after \<open>ReadStats\<close>.
\<close>

definition payload_result ::
  "payload \<Rightarrow> ResourceMetrics \<Rightarrow> string \<Rightarrow> string \<Rightarrow> int \<Rightarrow> ExecutionResult" where
  "payload_result p metrics out err status =
     \<lparr> success = p_success p, result = p_result p, error = p_error p,
       er_execution_time = p_execution_time p,
       resource_metrics = metrics,
       complexity_analysis =
         Some (analyze_complexity (p_execution_time p)
                 (case p_memory_peak p of None \<Rightarrow> 0 | Some m \<Rightarrow> m)),
       stdout = out, stderr = err, exit_code = status \<rparr>"

definition monitor_execution :: "world \<Rightarrow> sandbox \<Rightarrow> (exn + ExecutionResult) \<times> effect list" where
  "monitor_execution w container =
     (case wait_reply container of
        Inl e \<Rightarrow> (monitor_raised w e, [WaitContainer])
      | Inr status \<Rightarrow>
          (case logs_reply container of
             Inl e \<Rightarrow> (monitor_raised w e, [WaitContainer, ReadLogs])
           | Inr (out, err) \<Rightarrow>
               (let metrics = collect_resource_metrics container (perf_counter w 0) (perf_counter w 1)
                in (case json_loads w (last (split_on (CHR ''\<newline>'') (strip out))) of
                      Malformed \<Rightarrow>
                        (Inr (payload_result parse_failure_payload metrics out err status),
                         [WaitContainer, ReadLogs, ReadStats])
                    | Payload p \<Rightarrow>
                        (Inr (payload_result p metrics out err status),
                         [WaitContainer, ReadLogs, ReadStats])
                    | Unusable msg \<Rightarrow>
                        (monitor_raised w (OtherError msg),
                         [WaitContainer, ReadLogs, ReadStats])))))"

text \<open>The result built in the \<open>except Exception\<close> branch of \<open>execute_algorithm\<close>.\<close>

definition failure_result :: "exn \<Rightarrow> ExecutionResult" where
  "failure_result e =
     \<lparr> success = False, result = PNone, error = Some (str_of e), er_execution_time = 0,
       resource_metrics = get_empty_metrics, complexity_analysis = None, stdout = [],
       stderr = str_of e, exit_code = - 1 \<rparr>"

text \<open>The executor's own state, and \<open>_create_container\<close>: one call of
  \<open>containers.run\<close>, answered according to how many such calls the trace already holds.\<close>

record executor =
  active_containers :: "string \<rightharpoonup> sandbox"

definition create_container :: "world \<Rightarrow> string \<Rightarrow> effect list \<Rightarrow> (exn + sandbox) \<times> effect list" where
  "create_container w session_id tr = (run_reply w (count_runs tr), tr @ [RunContainer session_id])"

text \<open>The \<open>finally\<close> block for a container that was created: \<open>stop\<close>, then \<open>remove\<close> unless
  \<open>stop\<close> raised; every exception is swallowed.\<close>

definition cleanup_container :: "sandbox \<Rightarrow> effect list" where
  "cleanup_container container =
     (if stop_raises container then [StopContainer] else [StopContainer, RemoveContainer])"

text \<open>
  \<open>execute_algorithm\<close>: the result, the executor afterwards, and the calls made. The
  entry for the session is added to \<open>active_containers\<close> once the container exists and
  deleted in the \<open>finally\<close> block.
\<close>

definition execute_algorithm ::
  "world \<Rightarrow> executor \<Rightarrow> string \<Rightarrow> ExecutionResult \<times> executor \<times> effect list" where
  "execute_algorithm w ex session_id =
     (case prepare_reply w of
        MkdtempFails e \<Rightarrow> (failure_result e, ex, [MakeTempDir])
      | WriteFails e \<Rightarrow> (failure_result e, ex, [MakeTempDir, WriteFiles, RemoveTempDir])
      | Prepared \<Rightarrow>
          (case create_container w session_id [MakeTempDir, WriteFiles] of
             (Inl e, tr) \<Rightarrow> (failure_result e, ex, tr @ [RemoveTempDir])
           | (Inr container, tr) \<Rightarrow>
               (let ex1 = ex\<lparr> active_containers := (active_containers ex)(session_id \<mapsto> container) \<rparr>;
                    (outcome, calls) = monitor_execution w container;
                    res = (case outcome of Inl e \<Rightarrow> failure_result e | Inr r \<Rightarrow> r);
                    ex2 = ex1\<lparr> active_containers := (active_containers ex1)(session_id := None) \<rparr>
                in (res, ex2, tr @ calls @ cleanup_container container @ [RemoveTempDir]))))"

section \<open>Test harness (test\_framework.py)\<close>

text \<open>
  Two more text operations: \<open>s.split(sep)\<close> for a separator of any length (\<open>cur\<close> is the
  piece being read; Python refuses the empty separator, which is left unsplit here), and
  \<open>s.lower()\<close> on the code points below 256.
\<close>

function split_str :: "string \<Rightarrow> string \<Rightarrow> string \<Rightarrow> string list" where
  "split_str sep cur [] = [cur]"
| "split_str sep cur (c # cs) =
     (if sep \<noteq> [] \<and> startswith (c # cs) sep
      then cur # split_str sep [] (drop (length sep) (c # cs))
      else split_str sep (cur @ [c]) cs)"
  by pat_completeness auto
termination
  by (relation "measure (\<lambda>(sep, cur, rest). length rest)") auto

definition lower_char :: "char \<Rightarrow> char" where
  "lower_char c =
     (let n = (of_char c :: nat)
      in if (65 \<le> n \<and> n \<le> 90) \<or> (192 \<le> n \<and> n \<le> 222 \<and> n \<noteq> 215)
         then char_of (n + 32) else c)"

definition lower :: "string \<Rightarrow> string" where
  "lower s = map lower_char s"

text \<open>The dataclasses. \<open>tc_\<close>, \<open>ts_\<close>, \<open>tr_\<close>, \<open>br_\<close> and \<open>sr_\<close> mark fields of \<open>TestCase\<close>,
  \<open>TestSuite\<close>, \<open>TestResult\<close>, \<open>BenchmarkResult\<close> and \<open>TestSuiteResult\<close> whose names
  several classes share. A declared benchmark is a dictionary with the keys
  \<open>input_size\<close> and \<open>iterations\<close>.\<close>

record TestCase =
  tc_name :: string
  input_data :: pyval
  expected_output :: pyval
  timeout :: real
  memory_limit :: int
  description :: string
  tags :: "string list option"

record benchmark =
  input_size :: int
  iterations :: int

record TestSuite =
  ts_name :: string
  ts_algorithm_name :: string
  test_cases :: "TestCase list"
  setup_code :: string
  teardown_code :: string
  benchmarks :: "benchmark list option"

record TestResult =
  test_name :: string
  passed :: bool
  tr_execution_time :: real
  tr_memory_usage :: real
  error_message :: "string option"
  tr_output :: string
  expected :: pyval
  actual :: pyval

record BenchmarkResult =
  br_name :: string
  br_input_size :: int
  br_execution_time :: real
  br_memory_usage :: real
  throughput :: real
  percentiles :: "(string \<times> real) list"

record TestSuiteResult =
  suite_name :: string
  sr_algorithm_name :: string
  total_tests :: int
  passed_tests :: int
  failed_tests :: int
  sr_execution_time :: real
  coverage_percentage :: real
  test_results :: "TestResult list"
  benchmark_results :: "BenchmarkResult list"
  security_score :: real

text \<open>\<open>TestCase(name, input_data, expected_output)\<close> and
  \<open>TestSuite(name=..., algorithm_name=..., test_cases=...)\<close> with the defaults of the
  dataclasses.\<close>

definition new_TestCase :: "string \<Rightarrow> pyval \<Rightarrow> pyval \<Rightarrow> TestCase" where
  "new_TestCase n i e =
     \<lparr> tc_name = n, input_data = i, expected_output = e, timeout = 5, memory_limit = 128,
       description = [], tags = None \<rparr>"

definition new_TestSuite :: "string \<Rightarrow> string \<Rightarrow> TestCase list \<Rightarrow> benchmark list option \<Rightarrow> TestSuite" where
  "new_TestSuite n a cases bs =
     \<lparr> ts_name = n, ts_algorithm_name = a, test_cases = cases, setup_code = [],
       teardown_code = [], benchmarks = bs \<rparr>"

text \<open>\<open>list(range(n))\<close> and \<open>[i % 100 for i in range(n)]\<close> as JSON values.\<close>

definition py_range :: "nat \<Rightarrow> pyval" where
  "py_range n = PList (map (\<lambda>i. PInt (int i)) [0..<n])"

definition py_range_mod100 :: "nat \<Rightarrow> pyval" where
  "py_range_mod100 n = PList (map (\<lambda>i. PInt (int i mod 100)) [0..<n])"

definition ints :: "int list \<Rightarrow> pyval" where
  "ints xs = PList (map PInt xs)"

text \<open>The suites \<open>_load_algorithm_test_suites\<close> builds, and the dictionary it stores.\<close>

definition two_sum_suite :: TestSuite where
  "two_sum_suite =
     new_TestSuite ''Two Sum Complete Test Suite'' ''two_sum''
       [new_TestCase ''basic_case''
          (PDict [(''nums'', ints [2, 7, 11, 15]), (''target'', PInt 9)]) (ints [0, 1]),
        new_TestCase ''duplicate_numbers''
          (PDict [(''nums'', ints [3, 3]), (''target'', PInt 6)]) (ints [0, 1]),
        new_TestCase ''negative_numbers''
          (PDict [(''nums'', ints [- 1, - 2, - 3, - 4, - 5]), (''target'', PInt (- 8))])
          (ints [2, 4]),
        new_TestCase ''large_array''
          (PDict [(''nums'', py_range 1000), (''target'', PInt 1999)]) (ints [999, 1000]),
        new_TestCase ''no_solution''
          (PDict [(''nums'', ints [1, 2, 3]), (''target'', PInt 7)]) (ints []),
        new_TestCase ''zero_target''
          (PDict [(''nums'', ints [- 1, 0, 1]), (''target'', PInt 0)]) (ints [0, 2]),
        new_TestCase ''single_element''
          (PDict [(''nums'', ints [1]), (''target'', PInt 1)]) (ints []),
        new_TestCase ''two_elements_match''
          (PDict [(''nums'', ints [1, 2]), (''target'', PInt 3)]) (ints [0, 1])]
       (Some [\<lparr> input_size = 100, iterations = 1000 \<rparr>,
              \<lparr> input_size = 500, iterations = 500 \<rparr>,
              \<lparr> input_size = 1000, iterations = 100 \<rparr>,
              \<lparr> input_size = 5000, iterations = 20 \<rparr>,
              \<lparr> input_size = 10000, iterations = 10 \<rparr>])"

definition binary_search_suite :: TestSuite where
  "binary_search_suite =
     new_TestSuite ''Binary Search Test Suite'' ''binary_search''
       [new_TestCase ''found_middle''
          (PDict [(''arr'', ints [1, 2, 3, 4, 5]), (''target'', PInt 3)]) (PInt 2),
        new_TestCase ''found_first''
          (PDict [(''arr'', ints [1, 2, 3, 4, 5]), (''target'', PInt 1)]) (PInt 0),
        new_TestCase ''found_last''
          (PDict [(''arr'', ints [1, 2, 3, 4, 5]), (''target'', PInt 5)]) (PInt 4),
        new_TestCase ''not_found''
          (PDict [(''arr'', ints [1, 2, 3, 4, 5]), (''target'', PInt 6)]) (PInt (- 1)),
        new_TestCase ''empty_array''
          (PDict [(''arr'', ints []), (''target'', PInt 1)]) (PInt (- 1)),
        new_TestCase ''single_element_found''
          (PDict [(''arr'', ints [1]), (''target'', PInt 1)]) (PInt 0),
        new_TestCase ''single_element_not_found''
          (PDict [(''arr'', ints [1]), (''target'', PInt 2)]) (PInt (- 1)),
        new_TestCase ''large_array''
          (PDict [(''arr'', py_range 10000), (''target'', PInt 5555)]) (PInt 5555)]
       None"

definition container_water_suite :: TestSuite where
  "container_water_suite =
     new_TestSuite ''Container With Most Water Test Suite'' ''max_area''
       [new_TestCase ''basic_case''
          (PDict [(''height'', ints [1, 8, 6, 2, 5, 4, 8, 3, 7])]) (PInt 49),
        new_TestCase ''two_elements'' (PDict [(''height'', ints [1, 1])]) (PInt 1),
        new_TestCase ''increasing_height'' (PDict [(''height'', ints [1, 2, 3, 4, 5])]) (PInt 6),
        new_TestCase ''decreasing_height'' (PDict [(''height'', ints [5, 4, 3, 2, 1])]) (PInt 6),
        new_TestCase ''same_height'' (PDict [(''height'', ints [5, 5, 5, 5, 5])]) (PInt 20),
        new_TestCase ''large_array'' (PDict [(''height'', py_range_mod100 1000)]) PNone]
       None"

definition loaded_test_suites :: "(string \<times> TestSuite) list" where
  "loaded_test_suites =
     [(''two_sum'', two_sum_suite), (''binary_search'', binary_search_suite),
      (''container_water'', container_water_suite)]"

text \<open>
  What \<open>cat\<close> of a result file inside the container gives, after \<open>json.loads\<close>:
  \<open>NotThere\<close> for a non-zero exit code, \<open>Unreadable\<close> when \<open>exec_run\<close> or \<open>json.loads\<close>
  raises, \<open>Loaded\<close> with the part of the document that is read. An entry that lacks a key
  read by subscript has \<open>None\<close> there.
\<close>

datatype 'a file_reply = NotThere | Unreadable | Loaded 'a

record test_entry =
  nodeid :: "string option"
  te_outcome :: "string option"
  te_duration :: "real option"
  call_longrepr :: "string option"
  call_stdout :: "string option"

record bench_entry =
  be_name :: "string option"
  stats_mean :: "real option"
  stats_median :: "real option"
  stats_q95 :: "real option"
  stats_q99 :: "real option"

record test_container =
  wait_tests :: "exn + int"
  logs_tests :: "exn + string"
  test_results_json :: "test_entry list file_reply"
  benchmark_results_json :: "bench_entry list file_reply"
  coverage_json :: "real option file_reply"

record harness_world =
  prepare_tests :: preparation
  run_tests :: "exn + test_container"

text \<open>\<open>_parse_logs_fallback\<close>: one result per line that holds \<open>::\<close> and one of \<open>PASSED\<close>,
  \<open>FAILED\<close>; the name is the text after the last \<open>::\<close>, up to the first space.\<close>

definition fallback_line :: "string \<Rightarrow> TestResult option" where
  "fallback_line line =
     (if contains line ''::'' \<and> (contains line ''PASSED'' \<or> contains line ''FAILED'')
      then (let parts = split_str ''::'' [] line;
                name = (case split_on (CHR '' '') (last parts) of [] \<Rightarrow> [] | n # _ \<Rightarrow> n);
                ok = contains line ''PASSED''
            in Some \<lparr> test_name = name, passed = ok, tr_execution_time = 0,
                      tr_memory_usage = 0,
                      error_message = (if ok then None else Some ''Test failed''),
                      tr_output = [], expected = PNone, actual = PNone \<rparr>)
      else None)"

definition parse_logs_fallback :: "string \<Rightarrow> TestResult list" where
  "parse_logs_fallback logs =
     List.map_filter fallback_line (split_on (CHR ''\<newline>'') logs)"

text \<open>The two loops of \<open>_parse_test_results\<close>. \<open>None\<close> is a \<open>KeyError\<close>; the benchmark loop
  also hands back the results appended before it.\<close>

definition parse_test_entry :: "test_entry \<Rightarrow> TestResult option" where
  "parse_test_entry t =
     (case nodeid t of
        None \<Rightarrow> None
      | Some n \<Rightarrow>
          (case te_outcome t of
             None \<Rightarrow> None
           | Some oc \<Rightarrow>
               Some \<lparr> test_name = n, passed = (oc = ''passed''),
                      tr_execution_time = (case te_duration t of None \<Rightarrow> 0 | Some d \<Rightarrow> d),
                      tr_memory_usage = 0,
                      error_message = (if oc \<noteq> ''passed'' then call_longrepr t else None),
                      tr_output = (case call_stdout t of None \<Rightarrow> [] | Some s \<Rightarrow> s),
                      expected = PNone, actual = PNone \<rparr>))"

fun parse_test_entries :: "test_entry list \<Rightarrow> TestResult list option" where
  "parse_test_entries [] = Some []"
| "parse_test_entries (t # ts) =
     (case parse_test_entry t of
        None \<Rightarrow> None
      | Some r \<Rightarrow> (case parse_test_entries ts of None \<Rightarrow> None | Some rs \<Rightarrow> Some (r # rs)))"

definition parse_bench_entry :: "bench_entry \<Rightarrow> BenchmarkResult option" where
  "parse_bench_entry b =
     (case be_name b of
        None \<Rightarrow> None
      | Some n \<Rightarrow>
          (case stats_mean b of
             None \<Rightarrow> None
           | Some m \<Rightarrow>
               (case stats_median b of
                  None \<Rightarrow> None
                | Some med \<Rightarrow>
                    Some \<lparr> br_name = n, br_input_size = 0, br_execution_time = m,
                           br_memory_usage = 0,
                           throughput = (if m > 0 then 1 / m else 0),
                           percentiles =
                             [(''p50'', med),
                              (''p95'', case stats_q95 b of None \<Rightarrow> 0 | Some q \<Rightarrow> q),
                              (''p99'', case stats_q99 b of None \<Rightarrow> 0 | Some q \<Rightarrow> q)] \<rparr>)))"

fun parse_bench_entries :: "bench_entry list \<Rightarrow> BenchmarkResult list \<times> bool" where
  "parse_bench_entries [] = ([], False)"
| "parse_bench_entries (b # bs) =
     (case parse_bench_entry b of
        None \<Rightarrow> ([], True)
      | Some r \<Rightarrow> (case parse_bench_entries bs of (rs, raised) \<Rightarrow> (r # rs, raised)))"

text \<open>\<open>_parse_test_results\<close>: any exception while the three files are read replaces the
  test results by the ones read from the log; the benchmark results appended so far and
  the coverage (still 0) stay.\<close>

definition parse_test_results ::
  "test_container \<Rightarrow> string \<Rightarrow> TestResult list \<times> BenchmarkResult list \<times> real" where
  "parse_test_results container logs =
     (let fallback = parse_logs_fallback logs
      in (case (case test_results_json container of
                  Unreadable \<Rightarrow> None
                | NotThere \<Rightarrow> Some []
                | Loaded ts \<Rightarrow> parse_test_entries ts) of
            None \<Rightarrow> (fallback, [], 0)
          | Some trs \<Rightarrow>
              (case (case benchmark_results_json container of
                       Unreadable \<Rightarrow> ([], True)
                     | NotThere \<Rightarrow> ([], False)
                     | Loaded bs \<Rightarrow> parse_bench_entries bs) of
                 (brs, True) \<Rightarrow> (fallback, brs, 0)
               | (brs, False) \<Rightarrow>
                   (case coverage_json container of
                      Unreadable \<Rightarrow> (fallback, brs, 0)
                    | NotThere \<Rightarrow> (trs, brs, 0)
                    | Loaded pc \<Rightarrow> (trs, brs, case pc of None \<Rightarrow> 0 | Some x \<Rightarrow> x)))))"

definition calculate_security_score :: "TestResult list \<Rightarrow> real" where
  "calculate_security_score results =
     (let security_tests = filter (\<lambda>r. contains (lower (test_name r)) ''security'') results
      in if security_tests = [] then 0.5
         else (real (length (filter passed security_tests)) / real (length security_tests)) * 100)"

text \<open>\<open>_execute_tests\<close>: an exception of \<open>container.wait\<close> or \<open>container.logs\<close> is logged
  and raised again.\<close>

definition execute_tests :: "test_container \<Rightarrow> TestSuite \<Rightarrow> exn + TestSuiteResult" where
  "execute_tests container suite =
     (case wait_tests container of
        Inl e \<Rightarrow> Inl e
      | Inr code \<Rightarrow>
          (case logs_tests container of
             Inl e \<Rightarrow> Inl e
           | Inr logs \<Rightarrow>
               (case parse_test_results container logs of
                  (trs, brs, coverage) \<Rightarrow>
                    (let total = int (length (test_cases suite))
                               + int (length (case benchmarks suite of None \<Rightarrow> [] | Some bs \<Rightarrow> bs))
                               + 2;
                         npassed = int (length (filter passed trs))
                     in Inr \<lparr> suite_name = ts_name suite,
                              sr_algorithm_name = ts_algorithm_name suite,
                              total_tests = total,
                              passed_tests = npassed,
                              failed_tests = total - npassed,
                              sr_execution_time = sum_list (map tr_execution_time trs),
                              coverage_percentage = coverage,
                              test_results = trs,
                              benchmark_results = brs,
                              security_score = calculate_security_score trs \<rparr>))))"

text \<open>The result built in the \<open>except Exception\<close> branch of \<open>run_test_suite\<close>.\<close>

definition failed_suite_result :: "TestSuite \<Rightarrow> string \<Rightarrow> TestSuiteResult" where
  "failed_suite_result suite algorithm_name =
     \<lparr> suite_name = ts_name suite,
       sr_algorithm_name = algorithm_name,
       total_tests = int (length (test_cases suite)),
       passed_tests = 0,
       failed_tests = int (length (test_cases suite)),
       sr_execution_time = 0,
       coverage_percentage = 0,
       test_results = [],
       benchmark_results = [],
       security_score = 0 \<rparr>"

text \<open>
  \<open>run_test_suite\<close>. \<open>not custom_test_cases\<close> holds for \<open>None\<close> and for the empty list. A
  name without a suite and without custom cases raises \<open>ValueError\<close> to the caller;
  everything raised later is caught and reported as a failed suite.
\<close>

definition select_suite ::
  "(string \<times> TestSuite) list \<Rightarrow> string \<Rightarrow> TestCase list option \<Rightarrow> py_error + TestSuite" where
  "select_suite suites algorithm_name custom_test_cases =
     (let stored =
            (case map_of suites algorithm_name of
               None \<Rightarrow> Inl (ValueError (''No test suite found for algorithm: '' @ algorithm_name))
             | Some s \<Rightarrow> Inr s)
      in (case custom_test_cases of
            None \<Rightarrow> stored
          | Some cases \<Rightarrow>
              if cases = [] then stored
              else Inr (new_TestSuite (''Custom '' @ algorithm_name @ '' Tests'') algorithm_name
                          cases None)))"

definition run_test_suite ::
  "harness_world \<Rightarrow> (string \<times> TestSuite) list \<Rightarrow> string \<Rightarrow> TestCase list option
     \<Rightarrow> py_error + TestSuiteResult" where
  "run_test_suite w suites algorithm_name custom_test_cases =
     (case select_suite suites algorithm_name custom_test_cases of
        Inl e \<Rightarrow> Inl e
      | Inr suite \<Rightarrow>
          (case prepare_tests w of
             MkdtempFails e \<Rightarrow> Inr (failed_suite_result suite algorithm_name)
           | WriteFails e \<Rightarrow> Inr (failed_suite_result suite algorithm_name)
           | Prepared \<Rightarrow>
               (case run_tests w of
                  Inl e \<Rightarrow> Inr (failed_suite_result suite algorithm_name)
                | Inr container \<Rightarrow>
                    (case execute_tests container suite of
                       Inl e \<Rightarrow> Inr (failed_suite_result suite algorithm_name)
                     | Inr r \<Rightarrow> Inr r))))"

section \<open>Definitions for the statements and the proofs\<close>

text \<open>The single steps a scan is made of.\<close>

inductive step_of_scan :: "(security_report \<Rightarrow> security_report) \<Rightarrow> bool" where
  step_block: "step_of_scan (block_function code x)"
| step_flag: "step_of_scan (flag_pattern code x)"
| step_import: "step_of_scan (flag_import allowed x)"
| step_file_op: "step_of_scan (block_file_op b code x)"

text \<open>The invariant behind the report's fields: \<open>safe\<close> is false exactly when something
  was blocked, a blocked item forces HIGH, and a warning forces at least MEDIUM.\<close>

definition report_ok :: "security_report \<Rightarrow> bool" where
  "report_ok r \<longleftrightarrow>
     (safe r \<longleftrightarrow> blocked_items r = []) \<and>
     (blocked_items r \<noteq> [] \<longrightarrow> risk_level r = HIGH) \<and>
     (warnings r \<noteq> [] \<longrightarrow> risk_level r \<noteq> LOW)"

text \<open>A report that holds the entry \<open>item\<close> as a blocking finding.\<close>

definition blocked_as :: "string \<Rightarrow> security_report \<Rightarrow> bool" where
  "blocked_as item r \<longleftrightarrow> \<not> safe r \<and> risk_level r = HIGH \<and> item \<in> set (blocked_items r)"

text \<open>Inputs used to exercise the validator: a call of \<open>eval\<close>; a reflective call followed
  by a read; a module with two allowlisted imports; and a function whose docstring has a
  line that starts with the word \<open>from\<close>.\<close>

definition code_eval :: string where
  "code_eval = ''y = eval(x)''"

definition code_getattr_read :: string where
  "code_getattr_read = ''getattr(x, y).read()''"

definition code_clean :: string where
  "code_clean = ''import math\<newline>from collections import deque\<newline>def f(a):\<newline>    return deque(a)''"

definition code_docstring :: string where
  \<open>code_docstring = ''def pick(a):\<newline>    """Return the smallest item\<newline>    from a sorted copy."""\<newline>    return sorted(a)[0]''\<close>

text \<open>The \<open>R\<^sup>2\<close> the loop records for a candidate: none when the candidate is skipped
  or not fitted.\<close>

definition candidate_r2 :: "numerics \<Rightarrow> int list \<Rightarrow> real list \<Rightarrow> complexity \<Rightarrow> real option" where
  "candidate_r2 numeric input_sizes execution_times c =
     (if c = O_2n \<and> Max (set input_sizes) > 20 then None
      else (case numeric c input_sizes execution_times of
              NoFit \<Rightarrow> None
            | Fitted slope intercept r_value complexity_values \<Rightarrow> Some (r_value ^ 2)))"

text \<open>
  The invariant of the loop over the candidates \<open>cs\<close> seen so far: the state's
  \<open>R\<^sup>2\<close> bounds every recorded one, and either nothing was recorded and the state is
  the initial one, or the state names the first candidate that reaches the bound.
\<close>

definition first_max :: "(complexity \<Rightarrow> real option) \<Rightarrow> complexity list \<Rightarrow> fit_state \<Rightarrow> bool" where
  "first_max r2 cs st \<longleftrightarrow>
     (\<forall>j < length cs. \<forall>r. r2 (cs ! j) = Some r \<longrightarrow> r \<le> best_r_squared st) \<and>
     ((\<forall>j < length cs. r2 (cs ! j) = None) \<and> best st = None \<and> best_r_squared st = - 1
      \<or> (\<exists>i < length cs. best st = Some (cs ! i) \<and> r2 (cs ! i) = Some (best_r_squared st) \<and>
              (\<forall>j < i. \<forall>r. r2 (cs ! j) = Some r \<longrightarrow> r < best_r_squared st)))"






definition sample_numeric :: numerics where
  "sample_numeric c sizes ts =
     (case c of
        O_1 \<Rightarrow> NoFit
      | O_log_n \<Rightarrow> Fitted 1 0 (1 / 2) [1, 2, 3]
      | O_n \<Rightarrow> Fitted 2 0 (9 / 10) [1, 2, 3]
      | O_n_log_n \<Rightarrow> Fitted 1 1 (8 / 10) [1, 2, 3]
      | O_n2 \<Rightarrow> Fitted 3 0 (- 9 / 10) [1, 4, 9]
      | O_n3 \<Rightarrow> Fitted 1 0 (1 / 10) [1, 8, 27]
      | O_2n \<Rightarrow> Fitted 1 0 1 [2, 4, 8])"

definition no_fit_numeric :: numerics where
  "no_fit_numeric c sizes ts = NoFit"

text \<open>The sandbox has started when the preparation went through and the first call of
  \<open>containers.run\<close> returned a container.\<close>

definition sandbox_started :: "world \<Rightarrow> sandbox \<Rightarrow> bool" where
  "sandbox_started w c \<longleftrightarrow> prepare_reply w = Prepared \<and> run_reply w 0 = Inr c"

text \<open>The payload a container that ran to completion reports: the one on its last line,
  or the parse-failure payload; none when waiting or reading the logs raised, or when the
  last line is JSON that cannot be read.\<close>

definition reported_payload :: "world \<Rightarrow> sandbox \<Rightarrow> payload option" where
  "reported_payload w c =
     (case wait_reply c of
        Inl e \<Rightarrow> None
      | Inr status \<Rightarrow>
          (case logs_reply c of
             Inl e \<Rightarrow> None
           | Inr (out, err) \<Rightarrow>
               (case json_loads w (last (split_on (CHR ''\<newline>'') (strip out))) of
                  Malformed \<Rightarrow> Some parse_failure_payload
                | Payload p \<Rightarrow> Some p
                | Unusable msg \<Rightarrow> None)))"

text \<open>The exception that keeps the sandbox from starting: the one raised while the
  temporary directory is prepared, or by the call of \<open>containers.run\<close>.\<close>

definition raised_before_start :: "world \<Rightarrow> exn option" where
  "raised_before_start w =
     (case prepare_reply w of
        MkdtempFails e \<Rightarrow> Some e
      | WriteFails e \<Rightarrow> Some e
      | Prepared \<Rightarrow> (case run_reply w 0 of Inl e \<Rightarrow> Some e | Inr c \<Rightarrow> None))"

text \<open>The exception raised while a started container is monitored: by
  \<open>container.wait\<close>, by \<open>container.logs\<close>, or on reading the entries of a last line that
  is JSON and cannot be used; none when the container reports a payload.\<close>

definition raised_in_sandbox :: "world \<Rightarrow> sandbox \<Rightarrow> exn option" where
  "raised_in_sandbox w c =
     (case wait_reply c of
        Inl e \<Rightarrow> Some e
      | Inr status \<Rightarrow>
          (case logs_reply c of
             Inl e \<Rightarrow> Some e
           | Inr (out, err) \<Rightarrow>
               (case json_loads w (last (split_on (CHR ''\<newline>'') (strip out))) of
                  Malformed \<Rightarrow> None
                | Payload p \<Rightarrow> None
                | Unusable msg \<Rightarrow> Some (OtherError msg))))"

text \<open>Sample sandboxes and worlds: a container whose wait raises \<open>ContainerError\<close>; one in
  which the algorithm raised; and a docker daemon that refuses the first
  \<open>containers.run\<close> and would accept a second one.\<close>

definition sample_stats :: container_stats where
  "sample_stats =
     \<lparr> cpu_total_usage = 500, precpu_total_usage = 100, system_cpu_usage = 2000,
       presystem_cpu_usage = 1000, memory_stats_usage = 2 * 1024 * 1024,
       memory_stats_limit = 128 * 1024 * 1024, networks = None, blkio_stats = None \<rparr>"

definition sandbox_crashed :: sandbox where
  "sandbox_crashed =
     \<lparr> wait_reply = Inl (ContainerError ''exit status 137'' 137),
       logs_reply = Inr ([], []), stats_reply = Some sample_stats, stop_raises = False \<rparr>"

definition sandbox_raised :: sandbox where
  "sandbox_raised =
     \<lparr> wait_reply = Inr 0,
       logs_reply = Inr (''{...}'', []), stats_reply = Some sample_stats, stop_raises = False \<rparr>"

definition raised_payload :: payload where
  "raised_payload =
     \<lparr> p_success = False, p_result = PNone, p_execution_time = 0, p_memory_peak = Some 0,
       p_error = Some ''division by zero'' \<rparr>"

definition world_crashed :: world where
  "world_crashed =
     \<lparr> prepare_reply = Prepared, run_reply = (\<lambda>n. Inr sandbox_crashed),
       json_loads = (\<lambda>line. Malformed), perf_counter = (\<lambda>k. real k) \<rparr>"

definition world_raised :: world where
  "world_raised =
     \<lparr> prepare_reply = Prepared, run_reply = (\<lambda>n. Inr sandbox_raised),
       json_loads = (\<lambda>line. Payload raised_payload), perf_counter = (\<lambda>k. real k) \<rparr>"

definition world_refused_once :: world where
  "world_refused_once =
     \<lparr> prepare_reply = Prepared,
       run_reply = (\<lambda>n. if n = 0 then Inl (OtherError ''cannot connect to the docker daemon'')
                        else Inr sandbox_raised),
       json_loads = (\<lambda>line. Payload raised_payload), perf_counter = (\<lambda>k. real k) \<rparr>"

text \<open>A container that does not finish within the timeout (\<open>container.wait\<close> raises an
  exception that is no \<open>ContainerError\<close>), and an algorithm that raised an exception
  whose text is empty.\<close>

definition sandbox_timed_out :: sandbox where
  "sandbox_timed_out =
     \<lparr> wait_reply = Inl (OtherError ''Read timed out.''),
       logs_reply = Inr ([], []), stats_reply = Some sample_stats, stop_raises = False \<rparr>"

definition world_timed_out :: world where
  "world_timed_out =
     \<lparr> prepare_reply = Prepared, run_reply = (\<lambda>n. Inr sandbox_timed_out),
       json_loads = (\<lambda>line. Malformed), perf_counter = (\<lambda>k. real k) \<rparr>"

definition silent_payload :: payload where
  "silent_payload =
     \<lparr> p_success = False, p_result = PNone, p_execution_time = 0, p_memory_peak = Some 0,
       p_error = Some [] \<rparr>"

definition world_silent :: world where
  "world_silent =
     \<lparr> prepare_reply = Prepared, run_reply = (\<lambda>n. Inr sandbox_raised),
       json_loads = (\<lambda>line. Payload silent_payload), perf_counter = (\<lambda>k. real k) \<rparr>"

definition no_executions :: executor where
  "no_executions = \<lparr> active_containers = Map.empty \<rparr>"

text \<open>A docker daemon that refuses to launch the test container, and one whose
  container runs the tests and leaves no result files.\<close>

definition world_launch_fails :: harness_world where
  "world_launch_fails =
     \<lparr> prepare_tests = Prepared,
       run_tests = Inl (OtherError ''cannot connect to the docker daemon'') \<rparr>"

definition quiet_container :: test_container where
  "quiet_container =
     \<lparr> wait_tests = Inr 0, logs_tests = Inr [], test_results_json = NotThere,
       benchmark_results_json = NotThere, coverage_json = NotThere \<rparr>"

definition world_tests_run :: harness_world where
  "world_tests_run = \<lparr> prepare_tests = Prepared, run_tests = Inr quiet_container \<rparr>"

section \<open>Proofs: security validator\<close>


subsection \<open>Facts about the text operations\<close>

lemma startswith_iff: "startswith s p \<longleftrightarrow> (\<exists>t. s = p @ t)"
  by (induction s p rule: startswith.induct) auto

lemma contains_iff: "contains s sub \<longleftrightarrow> (\<exists>pre post. s = pre @ sub @ post)"
proof (induction s)
  case Nil
  then show ?case by auto
next
  case (Cons c cs)
  show ?case
  proof
    assume "contains (c # cs) sub"
    then consider "startswith (c # cs) sub" | "contains cs sub" by auto
    then show "\<exists>pre post. c # cs = pre @ sub @ post"
    proof cases
      case 1
      then obtain t where "c # cs = sub @ t" by (auto simp: startswith_iff)
      then have "c # cs = [] @ sub @ t" by simp
      then show ?thesis by blast
    next
      case 2
      then obtain pre post where "cs = pre @ sub @ post" using Cons.IH by blast
      then have "c # cs = (c # pre) @ sub @ post" by simp
      then show ?thesis by blast
    qed
  next
    assume "\<exists>pre post. c # cs = pre @ sub @ post"
    then obtain pre post where e: "c # cs = pre @ sub @ post" by blast
    show "contains (c # cs) sub"
    proof (cases pre)
      case Nil
      with e have "startswith (c # cs) sub" by (auto simp: startswith_iff)
      then show ?thesis by simp
    next
      case (Cons a pre')
      with e have "cs = pre' @ sub @ post" by simp
      then have "contains cs sub" using Cons.IH by blast
      then show ?thesis by simp
    qed
  qed
qed

subsection \<open>The loops of the scan\<close>

lemma fold_unchanged: "(\<And>x. x \<in> set xs \<Longrightarrow> f x r = r) \<Longrightarrow> fold f xs r = r"
  by (induction xs) auto

lemma fold_steps: "fold (\<lambda>f. f) (map g xs) r = fold g xs r"
  by (induction xs arbitrary: r) auto

lemma last_run_steps: "last (run_steps fs r) = fold (\<lambda>f. f) fs r"
proof (induction fs arbitrary: r)
  case Nil
  show ?case by simp
next
  case (Cons f fs)
  have "run_steps fs (f r) \<noteq> []" by (cases fs) auto
  then show ?case using Cons by simp
qed

lemma scan_code_steps:
  "scan_code blocked allowed fs_access code =
     fold (\<lambda>f. f) (scan_steps blocked allowed fs_access code) initial_report"
  by (simp add: scan_code_def scan_steps_def fold_steps)

lemma last_scan_trace:
  "last (scan_trace blocked allowed fs_access code) = scan_code blocked allowed fs_access code"
  by (simp add: scan_trace_def last_run_steps scan_code_steps)

lemma scan_steps_are_steps:
  "f \<in> set (scan_steps blocked allowed fs_access code) \<Longrightarrow> step_of_scan f"
  unfolding scan_steps_def by (auto intro: step_of_scan.intros)

lemma severity_le_2: "severity l \<le> 2"
  by (cases l) simp_all

text \<open>No step lowers the risk level.\<close>

lemma step_escalates:
  assumes "step_of_scan f"
  shows "severity (risk_level r) \<le> severity (risk_level (f r))"
  using assms
  by cases
     (simp_all add: block_function_def flag_pattern_def flag_import_def block_file_op_def
        Let_def severity_le_2 split: option.splits)

lemma run_steps_above:
  assumes "\<And>f s. f \<in> set fs \<Longrightarrow> severity (risk_level s) \<le> severity (risk_level (f s))"
  shows "\<forall>s \<in> set (run_steps fs r). severity (risk_level r) \<le> severity (risk_level s)"
  using assms
proof (induction fs arbitrary: r)
  case Nil
  show ?case by simp
next
  case (Cons f fs)
  have up: "severity (risk_level r) \<le> severity (risk_level (f r))"
    using Cons.prems by simp
  have "\<forall>s \<in> set (run_steps fs (f r)). severity (risk_level (f r)) \<le> severity (risk_level s)"
    using Cons.IH Cons.prems by simp
  with up show ?case by (auto intro: order_trans)
qed

lemma run_steps_sorted:
  assumes "\<And>f s. f \<in> set fs \<Longrightarrow> severity (risk_level s) \<le> severity (risk_level (f s))"
  shows "sorted (map (\<lambda>s. severity (risk_level s)) (run_steps fs r))"
  using assms
proof (induction fs arbitrary: r)
  case Nil
  show ?case by simp
next
  case (Cons f fs)
  have tail: "sorted (map (\<lambda>s. severity (risk_level s)) (run_steps fs (f r)))"
    using Cons.IH Cons.prems by simp
  have up: "severity (risk_level r) \<le> severity (risk_level (f r))"
    using Cons.prems by simp
  have "\<forall>s \<in> set (run_steps fs (f r)). severity (risk_level (f r)) \<le> severity (risk_level s)"
    using run_steps_above [of fs "f r"] Cons.prems by simp
  with up have "\<forall>s \<in> set (run_steps fs (f r)). severity (risk_level r) \<le> severity (risk_level s)"
    by (auto intro: order_trans)
  with tail show ?case by simp
qed

lemma report_ok_initial: "report_ok initial_report"
  by (simp add: report_ok_def initial_report_def)

lemma report_ok_step:
  assumes "step_of_scan f"
  shows "report_ok r \<longrightarrow> report_ok (f r)"
  using assms
  by cases
     (auto simp: report_ok_def block_function_def flag_pattern_def flag_import_def
        block_file_op_def Let_def split: option.splits)

lemma report_ok_fold:
  "(\<And>f. f \<in> set fs \<Longrightarrow> step_of_scan f) \<Longrightarrow> report_ok r \<Longrightarrow> report_ok (fold (\<lambda>f. f) fs r)"
  by (induction fs arbitrary: r) (auto simp: report_ok_step)

lemma report_ok_scan: "report_ok (scan_code blocked allowed fs_access code)"
  unfolding scan_code_steps
  by (rule report_ok_fold) (auto simp: scan_steps_are_steps report_ok_initial)

lemma blocked_as_step:
  assumes "step_of_scan f"
  shows "blocked_as item r \<longrightarrow> blocked_as item (f r)"
  using assms
  by cases
     (auto simp: blocked_as_def block_function_def flag_pattern_def flag_import_def
        block_file_op_def Let_def split: option.splits)

lemma blocked_as_fold:
  "(\<And>f. f \<in> set fs \<Longrightarrow> step_of_scan f) \<Longrightarrow> blocked_as item r \<Longrightarrow>
   blocked_as item (fold (\<lambda>f. f) fs r)"
  by (induction fs arbitrary: r) (auto simp: blocked_as_step)

lemma block_function_hits:
  "contains code func \<Longrightarrow> blocked_as (''Blocked function: '' @ func) (block_function code func r)"
  by (simp add: blocked_as_def block_function_def)

lemma blocked_loop_hits:
  assumes "func \<in> set blocked" and "contains code func"
  shows "blocked_as (''Blocked function: '' @ func) (fold (block_function code) blocked r)"
  using assms(1)
proof (induction blocked arbitrary: r)
  case Nil
  then show ?case by simp
next
  case (Cons x xs)
  show ?case
  proof (cases "func = x")
    case True
    have "blocked_as (''Blocked function: '' @ func) (block_function code x r)"
      using True assms(2) block_function_hits by simp
    then have "blocked_as (''Blocked function: '' @ func)
                 (fold (\<lambda>f. f) (map (block_function code) xs) (block_function code x r))"
      by (rule blocked_as_fold [rotated]) (auto intro: step_of_scan.intros)
    then show ?thesis by (simp add: fold_steps)
  next
    case False
    with Cons.prems have "func \<in> set xs" by simp
    then show ?thesis using Cons.IH by simp
  qed
qed

lemma scan_code_blocked:
  assumes "func \<in> set blocked" and "contains code func"
  shows "blocked_as (''Blocked function: '' @ func) (scan_code blocked allowed fs_access code)"
proof -
  let ?r1 = "fold (block_function code) blocked initial_report"
  let ?rest = "map (flag_pattern code) suspicious_patterns @
     map (flag_import allowed) (import_lines code) @
     map (block_file_op fs_access code) file_operations"
  have "blocked_as (''Blocked function: '' @ func) ?r1"
    using assms by (rule blocked_loop_hits)
  then have "blocked_as (''Blocked function: '' @ func) (fold (\<lambda>f. f) ?rest ?r1)"
    by (rule blocked_as_fold [rotated]) (auto intro: step_of_scan.intros)
  then show ?thesis
    by (simp add: scan_code_def fold_steps)
qed

lemma scan_code_clean:
  assumes "\<forall>f \<in> set blocked. \<not> contains code f"
    and "\<forall>p \<in> set suspicious_patterns. \<not> contains code p"
    and "\<forall>l \<in> set (import_lines code). \<not> unauthorized allowed l"
    and "\<forall>op \<in> set file_operations. \<not> contains code op"
  shows "scan_code blocked allowed fs_access code = initial_report"
proof -
  have 1: "fold (block_function code) blocked initial_report = initial_report"
    using assms(1) by (intro fold_unchanged) (simp add: block_function_def)
  have 2: "fold (flag_pattern code) suspicious_patterns initial_report = initial_report"
    using assms(2) by (intro fold_unchanged) (simp add: flag_pattern_def)
  have 3: "fold (flag_import allowed) (import_lines code) initial_report = initial_report"
    using assms(3)
    by (intro fold_unchanged) (auto simp: flag_import_def unauthorized_def split: option.splits)
  have 4: "fold (block_file_op fs_access code) file_operations initial_report = initial_report"
    using assms(4) by (intro fold_unchanged) (simp add: block_file_op_def)
  show ?thesis by (simp add: scan_code_def 1 2 3 4)
qed

lemma validate_initialised:
  assumes "blocked_functions config = Some blocked" and "allowed_imports config = Some allowed"
  shows "validate_code_security config code =
           Inr (scan_code blocked allowed (file_system_access config) code)"
  using assms by (simp add: validate_code_security_def)

lemma validate_returns_scan:
  assumes "validate_code_security config code = Inr r"
  shows "\<exists>blocked allowed. r = scan_code blocked allowed (file_system_access config) code"
  using assms
  by (auto simp: validate_code_security_def split: option.splits if_splits)

lemma init_lists:
  "\<exists>blocked allowed. blocked_functions (SecurityManager_init c) = Some blocked \<and>
      allowed_imports (SecurityManager_init c) = Some allowed"
  by (auto simp: SecurityManager_init_def Let_def split: option.splits)

lemma init_default_lists:
  "blocked_functions (SecurityManager_init None) = Some default_blocked_functions"
  "allowed_imports (SecurityManager_init None) = Some default_allowed_imports"
  "file_system_access (SecurityManager_init None) = False"
  by (simp_all add: SecurityManager_init_def SecurityConfig_default_def)

text \<open>A manager built by \<open>SecurityManager_init\<close> always gets a report back.\<close>

lemma validate_after_init_returns:
  "\<exists>r. validate_code_security (SecurityManager_init c) code = Inr r"
proof -
  obtain blocked allowed where
    "blocked_functions (SecurityManager_init c) = Some blocked"
    "allowed_imports (SecurityManager_init c) = Some allowed"
    using init_lists by blast
  then show ?thesis using validate_initialised by blast
qed

text \<open>
  Claim C3. For a manager whose configuration holds its two lists (as every manager built
  by \<open>SecurityManager_init\<close> does): whenever a name of the denylist occurs in the code,
  \<open>validate_code_security\<close> returns a report, and that report has \<open>safe = False\<close>, risk
  level HIGH, and the entry for that name (\<open>Blocked function: name\<close>) in its blocked
  items. This covers the code whose only disallowed construct is one call of a
  denylisted name.
\<close>

theorem blocked_call_is_reported:
  assumes "blocked_functions config = Some blocked"
    and "allowed_imports config = Some allowed"
    and "func \<in> set blocked"
    and "contains code func"
  shows "\<exists>r. validate_code_security config code = Inr r
           \<and> \<not> safe r \<and> risk_level r = HIGH
           \<and> (''Blocked function: '' @ func) \<in> set (blocked_items r)"
proof -
  let ?r = "scan_code blocked allowed (file_system_access config) code"
  have v: "validate_code_security config code = Inr ?r"
    using validate_initialised [OF assms(1,2)] .
  have "blocked_as (''Blocked function: '' @ func) ?r"
    using scan_code_blocked [OF assms(3,4)] .
  then have "\<not> safe ?r \<and> risk_level ?r = HIGH
      \<and> (''Blocked function: '' @ func) \<in> set (blocked_items ?r)"
    by (simp add: blocked_as_def)
  with v show ?thesis by blast
qed

theorem blocked_call_is_reported_witness:
  "blocked_functions (SecurityManager_init None) = Some default_blocked_functions
   \<and> allowed_imports (SecurityManager_init None) = Some default_allowed_imports
   \<and> ''eval'' \<in> set default_blocked_functions
   \<and> contains code_eval ''eval''
   \<and> validate_code_security (SecurityManager_init None) code_eval =
       Inr \<lparr> safe = False, warnings = [], blocked_items = [''Blocked function: eval''],
             risk_level = HIGH \<rparr>
   \<and> (\<exists>r. validate_code_security (SecurityManager_init None) code_eval = Inr r
           \<and> \<not> safe r \<and> risk_level r = HIGH
           \<and> (''Blocked function: '' @ ''eval'') \<in> set (blocked_items r))"
proof -
  have v: "validate_code_security (SecurityManager_init None) code_eval =
       Inr \<lparr> safe = False, warnings = [], blocked_items = [''Blocked function: eval''],
             risk_level = HIGH \<rparr>"
    by code_simp
  have m: "''eval'' \<in> set default_blocked_functions"
    by (simp add: default_blocked_functions_def)
  have c: "contains code_eval ''eval''"
    by (simp add: code_eval_def)
  from blocked_call_is_reported [OF init_default_lists(1,2) m c] v m c init_default_lists(1,2)
  show ?thesis by blast
qed

text \<open>
  Claim C4, as amended. If no name of the denylist, no suspicious pattern and no
  file-operation token occurs in the text of the code, and every stripped line that starts
  with \<open>import\<close> or \<open>from\<close> yields, through \<open>_extract_module_name\<close>, either no module
  name, an empty one, or one in the allowlist, then \<open>validate_code_security\<close> returns the
  untouched report: risk level LOW, safe, no warnings, nothing blocked.
\<close>

theorem clean_code_is_low_risk:
  assumes "blocked_functions config = Some blocked"
    and "allowed_imports config = Some allowed"
    and "\<forall>f \<in> set blocked. \<not> contains code f"
    and "\<forall>p \<in> set suspicious_patterns. \<not> contains code p"
    and "\<forall>l \<in> set (import_lines code). \<not> unauthorized allowed l"
    and "\<forall>op \<in> set file_operations. \<not> contains code op"
  shows "\<exists>r. validate_code_security config code = Inr r \<and> risk_level r = LOW \<and> safe r
           \<and> warnings r = [] \<and> blocked_items r = []"
proof -
  have "validate_code_security config code = Inr initial_report"
    using validate_initialised [OF assms(1,2)] scan_code_clean [OF assms(3-6)] by simp
  then show ?thesis by (simp add: initial_report_def)
qed

theorem clean_code_is_low_risk_witness:
  "(\<exists>r. validate_code_security (SecurityManager_init None) code_clean = Inr r
        \<and> risk_level r = LOW \<and> safe r \<and> warnings r = [] \<and> blocked_items r = [])
   \<and> import_lines code_clean = [''import math'', ''from collections import deque'']
   \<and> map extract_module_name (import_lines code_clean) = [Some ''math'', Some ''collections'']
   \<and> filter (contains code_clean)
        (default_blocked_functions @ suspicious_patterns @ file_operations) = []"
proof -
  have 1: "\<forall>f \<in> set default_blocked_functions. \<not> contains code_clean f" by code_simp
  have 2: "\<forall>p \<in> set suspicious_patterns. \<not> contains code_clean p" by code_simp
  have 3: "\<forall>l \<in> set (import_lines code_clean). \<not> unauthorized default_allowed_imports l"
    by code_simp
  have 4: "\<forall>op \<in> set file_operations. \<not> contains code_clean op" by code_simp
  have 5: "import_lines code_clean = [''import math'', ''from collections import deque'']"
    by code_simp
  have 6: "map extract_module_name (import_lines code_clean) = [Some ''math'', Some ''collections'']"
    by code_simp
  have 7: "filter (contains code_clean)
        (default_blocked_functions @ suspicious_patterns @ file_operations) = []"
    by code_simp
  from clean_code_is_low_risk [OF init_default_lists(1,2) 1 2 3 4] 5 6 7
  show ?thesis by blast
qed

text \<open>
  Claim C4 as stated fails: \<open>code_docstring\<close> is a legal function definition with no
  import statement at all, and it holds no denylisted name, no suspicious pattern and no
  file-operation token. The second line of its docstring starts with the word \<open>from\<close>, so
  the line scan takes it for an import of the module \<open>a\<close>, and the risk level is MEDIUM.
\<close>

theorem docstring_line_counterexample:
  \<open>validate_code_security (SecurityManager_init None) code_docstring =
     Inr \<lparr> safe = True, warnings = [''Unauthorized import: a''], blocked_items = [],
           risk_level = MEDIUM \<rparr>
   \<and> filter (contains code_docstring)
        (default_blocked_functions @ suspicious_patterns @ file_operations) = []
   \<and> import_lines code_docstring = [''from a sorted copy."""'']
   \<and> MEDIUM \<noteq> LOW\<close>
proof -
  have 1: \<open>validate_code_security (SecurityManager_init None) code_docstring =
     Inr \<lparr> safe = True, warnings = [''Unauthorized import: a''], blocked_items = [],
           risk_level = MEDIUM \<rparr>\<close>
    by code_simp
  have 2: "filter (contains code_docstring)
        (default_blocked_functions @ suspicious_patterns @ file_operations) = []"
    by code_simp
  have 3: \<open>import_lines code_docstring = [''from a sorted copy."""'']\<close>
    by code_simp
  from 1 2 3 show ?thesis by simp
qed

text \<open>The comma-separated form \<open>import math, json\<close> is also reported at MEDIUM: the
  extracted name is \<open>math,\<close> with the comma.\<close>

lemma comma_import_is_flagged:
  "validate_code_security (SecurityManager_init None) ''import math, json'' =
     Inr \<lparr> safe = True, warnings = [''Unauthorized import: math,''], blocked_items = [],
           risk_level = MEDIUM \<rparr>"
  by code_simp

text \<open>
  Claim C9. Along the sequence of reports a scan passes through, one per loop iteration,
  the risk level never decreases; the last report of the sequence is the one
  \<open>validate_code_security\<close> returns; and in it the risk level is at least the level of
  every finding recorded (HIGH for a blocked item, MEDIUM for a warning).
\<close>

theorem risk_level_only_escalates:
  assumes "blocked_functions config = Some blocked"
    and "allowed_imports config = Some allowed"
  shows "sorted (map (\<lambda>s. severity (risk_level s))
                  (scan_trace blocked allowed (file_system_access config) code))
       \<and> validate_code_security config code =
           Inr (last (scan_trace blocked allowed (file_system_access config) code))
       \<and> (\<forall>l \<in> set (finding_levels
                        (last (scan_trace blocked allowed (file_system_access config) code))).
             severity l \<le> severity
               (risk_level (last (scan_trace blocked allowed (file_system_access config) code))))"
proof -
  let ?fs = "file_system_access config"
  let ?r = "scan_code blocked allowed ?fs code"
  have s: "sorted (map (\<lambda>s. severity (risk_level s)) (scan_trace blocked allowed ?fs code))"
    unfolding scan_trace_def
    by (rule run_steps_sorted) (simp add: scan_steps_are_steps step_escalates)
  have v: "validate_code_security config code = Inr (last (scan_trace blocked allowed ?fs code))"
    using validate_initialised [OF assms] by (simp add: last_scan_trace)
  have ok: "report_ok ?r" by (rule report_ok_scan)
  have "\<forall>l \<in> set (finding_levels ?r). severity l \<le> severity (risk_level ?r)"
  proof
    fix l assume "l \<in> set (finding_levels ?r)"
    then have "l = HIGH \<and> blocked_items ?r \<noteq> [] \<or> l = MEDIUM \<and> warnings ?r \<noteq> []"
      by (auto simp: finding_levels_def)
    then show "severity l \<le> severity (risk_level ?r)"
    proof
      assume "l = HIGH \<and> blocked_items ?r \<noteq> []"
      then show ?thesis using ok by (simp add: report_ok_def)
    next
      assume m: "l = MEDIUM \<and> warnings ?r \<noteq> []"
      then have "risk_level ?r \<noteq> LOW" using ok by (simp add: report_ok_def)
      then show ?thesis using m by (cases "risk_level ?r") simp_all
    qed
  qed
  with s v show ?thesis by (simp add: last_scan_trace)
qed

theorem risk_level_only_escalates_witness:
  "map risk_level (scan_trace default_blocked_functions default_allowed_imports False
      code_getattr_read) = replicate 26 LOW @ replicate 6 MEDIUM @ replicate 2 HIGH
   \<and> sorted (map (\<lambda>s. severity (risk_level s))
        (scan_trace default_blocked_functions default_allowed_imports False code_getattr_read))
   \<and> validate_code_security (SecurityManager_init None) code_getattr_read =
        Inr \<lparr> safe = False, warnings = [''Suspicious pattern: getattr''],
              blocked_items = [''File operation: read(''], risk_level = HIGH \<rparr>"
proof -
  have t: "map risk_level (scan_trace default_blocked_functions default_allowed_imports False
      code_getattr_read) = replicate 26 LOW @ replicate 6 MEDIUM @ replicate 2 HIGH"
    by code_simp
  have v: "validate_code_security (SecurityManager_init None) code_getattr_read =
        Inr \<lparr> safe = False, warnings = [''Suspicious pattern: getattr''],
              blocked_items = [''File operation: read(''], risk_level = HIGH \<rparr>"
    by code_simp
  from risk_level_only_escalates [OF init_default_lists(1,2), of code_getattr_read]
  have "sorted (map (\<lambda>s. severity (risk_level s))
        (scan_trace default_blocked_functions default_allowed_imports False code_getattr_read))"
    by (simp add: init_default_lists(3))
  with t v show ?thesis by simp
qed

lemma returned_report_ok:
  assumes "validate_code_security config code = Inr r"
  shows "(\<not> safe r \<longleftrightarrow> blocked_items r \<noteq> []) \<and> (\<not> safe r \<longrightarrow> risk_level r = HIGH)"
proof -
  obtain blocked allowed where "r = scan_code blocked allowed (file_system_access config) code"
    using validate_returns_scan [OF assms] by blast
  then have "report_ok r" by (simp add: report_ok_scan)
  then show ?thesis by (auto simp: report_ok_def)
qed

text \<open>
  Claim C10. For a manager whose configuration holds its two lists,
  \<open>validate_code_security\<close> returns a report for every code string; in it \<open>safe\<close> is
  false exactly when the list of blocked items is not empty, and if it is not safe its
  risk level is HIGH. The same holds for any report the function returns at all
  (\<open>returned_report_ok\<close>).
\<close>

theorem unsafe_iff_blocked:
  assumes "blocked_functions config = Some blocked"
    and "allowed_imports config = Some allowed"
  shows "\<exists>r. validate_code_security config code = Inr r
           \<and> (\<not> safe r \<longleftrightarrow> blocked_items r \<noteq> [])
           \<and> (\<not> safe r \<longrightarrow> risk_level r = HIGH)"
proof -
  let ?r = "scan_code blocked allowed (file_system_access config) code"
  have v: "validate_code_security config code = Inr ?r"
    using validate_initialised [OF assms] .
  have "report_ok ?r" by (rule report_ok_scan)
  then have "(\<not> safe ?r \<longleftrightarrow> blocked_items ?r \<noteq> []) \<and> (\<not> safe ?r \<longrightarrow> risk_level ?r = HIGH)"
    by (auto simp: report_ok_def)
  with v show ?thesis by blast
qed

theorem unsafe_iff_blocked_witness:
  "validate_code_security (SecurityManager_init None) code_getattr_read =
        Inr \<lparr> safe = False, warnings = [''Suspicious pattern: getattr''],
              blocked_items = [''File operation: read(''], risk_level = HIGH \<rparr>
   \<and> validate_code_security (SecurityManager_init None) code_clean = Inr initial_report
   \<and> (\<exists>r. validate_code_security (SecurityManager_init None) code_getattr_read = Inr r
           \<and> (\<not> safe r \<longleftrightarrow> blocked_items r \<noteq> []))"
proof -
  have v: "validate_code_security (SecurityManager_init None) code_getattr_read =
        Inr \<lparr> safe = False, warnings = [''Suspicious pattern: getattr''],
              blocked_items = [''File operation: read(''], risk_level = HIGH \<rparr>"
    by code_simp
  have w: "validate_code_security (SecurityManager_init None) code_clean = Inr initial_report"
    by code_simp
  from unsafe_iff_blocked [OF init_default_lists(1,2), of code_getattr_read] v w
  show ?thesis by blast
qed

section \<open>Proofs: complexity analyzer and regression detector\<close>

lemma candidate_r2_nonneg: "candidate_r2 numeric sizes ts c = Some r \<Longrightarrow> 0 \<le> r"
  by (auto simp: candidate_r2_def split: if_splits fit_outcome.splits)

lemma try_candidate_none:
  "candidate_r2 numeric sizes ts c = None \<Longrightarrow> try_candidate numeric sizes ts c st = st"
  by (auto simp: candidate_r2_def try_candidate_def split: if_splits fit_outcome.splits)

lemma try_candidate_keep:
  "candidate_r2 numeric sizes ts c = Some r \<Longrightarrow> r \<le> best_r_squared st \<Longrightarrow>
   try_candidate numeric sizes ts c st = st"
  by (auto simp: candidate_r2_def try_candidate_def Let_def split: if_splits fit_outcome.splits)

lemma try_candidate_take:
  "candidate_r2 numeric sizes ts c = Some r \<Longrightarrow> best_r_squared st < r \<Longrightarrow>
   best (try_candidate numeric sizes ts c st) = Some c \<and>
   best_r_squared (try_candidate numeric sizes ts c st) = r"
  by (auto simp: candidate_r2_def try_candidate_def Let_def split: if_splits fit_outcome.splits)

lemma first_max_init: "first_max r2 [] initial_fit_state"
  by (simp add: first_max_def initial_fit_state_def)

lemma first_max_leader_extends:
  assumes "i < length cs" and "best st = Some (cs ! i)"
    and "r2 (cs ! i) = Some (best_r_squared st)"
    and "\<forall>j < i. \<forall>r. r2 (cs ! j) = Some r \<longrightarrow> r < best_r_squared st"
  shows "\<exists>i < length (cs @ [c]). best st = Some ((cs @ [c]) ! i) \<and>
          r2 ((cs @ [c]) ! i) = Some (best_r_squared st) \<and>
          (\<forall>j < i. \<forall>r. r2 ((cs @ [c]) ! j) = Some r \<longrightarrow> r < best_r_squared st)"
proof -
  have "i < length (cs @ [c]) \<and> best st = Some ((cs @ [c]) ! i) \<and>
          r2 ((cs @ [c]) ! i) = Some (best_r_squared st) \<and>
          (\<forall>j < i. \<forall>r. r2 ((cs @ [c]) ! j) = Some r \<longrightarrow> r < best_r_squared st)"
    using assms by (auto simp: nth_append)
  then show ?thesis by blast
qed

lemma first_max_skip:
  assumes "first_max r2 cs st" and "r2 c = None"
  shows "first_max r2 (cs @ [c]) st"
proof -
  have bound: "\<forall>j < length (cs @ [c]). \<forall>r. r2 ((cs @ [c]) ! j) = Some r \<longrightarrow> r \<le> best_r_squared st"
    using assms by (auto simp: first_max_def nth_append less_Suc_eq)
  from assms(1) have d:
    "(\<forall>j < length cs. r2 (cs ! j) = None) \<and> best st = None \<and> best_r_squared st = - 1
      \<or> (\<exists>i < length cs. best st = Some (cs ! i) \<and> r2 (cs ! i) = Some (best_r_squared st) \<and>
              (\<forall>j < i. \<forall>r. r2 (cs ! j) = Some r \<longrightarrow> r < best_r_squared st))"
    unfolding first_max_def by (rule conjunct2)
  show ?thesis
  proof (rule disjE [OF d])
    assume none: "(\<forall>j < length cs. r2 (cs ! j) = None) \<and> best st = None \<and> best_r_squared st = - 1"
    then have "\<forall>j < length (cs @ [c]). r2 ((cs @ [c]) ! j) = None"
      using assms(2) by (simp add: nth_append less_Suc_eq)
    with none have "(\<forall>j < length (cs @ [c]). r2 ((cs @ [c]) ! j) = None) \<and> best st = None
        \<and> best_r_squared st = - 1" by simp
    then show ?thesis unfolding first_max_def using bound by - (rule conjI, assumption, rule disjI1, assumption)
  next
    assume "\<exists>i < length cs. best st = Some (cs ! i) \<and> r2 (cs ! i) = Some (best_r_squared st) \<and>
              (\<forall>j < i. \<forall>r. r2 (cs ! j) = Some r \<longrightarrow> r < best_r_squared st)"
    then obtain i where "i < length cs" "best st = Some (cs ! i)"
        "r2 (cs ! i) = Some (best_r_squared st)"
        "\<forall>j < i. \<forall>r. r2 (cs ! j) = Some r \<longrightarrow> r < best_r_squared st"
      by blast
    then have "\<exists>i < length (cs @ [c]). best st = Some ((cs @ [c]) ! i) \<and>
          r2 ((cs @ [c]) ! i) = Some (best_r_squared st) \<and>
          (\<forall>j < i. \<forall>r. r2 ((cs @ [c]) ! j) = Some r \<longrightarrow> r < best_r_squared st)"
      by (rule first_max_leader_extends)
    then show ?thesis unfolding first_max_def using bound by - (rule conjI, assumption, rule disjI2, assumption)
  qed
qed

lemma first_max_keep:
  assumes "first_max r2 cs st" and "r2 c = Some r" and "0 \<le> r" and "r \<le> best_r_squared st"
  shows "first_max r2 (cs @ [c]) st"
proof -
  have bound: "\<forall>j < length (cs @ [c]). \<forall>r. r2 ((cs @ [c]) ! j) = Some r \<longrightarrow> r \<le> best_r_squared st"
    using assms by (auto simp: first_max_def nth_append less_Suc_eq)
  have "best_r_squared st \<noteq> - 1" using assms(3,4) by simp
  with assms(1) obtain i where "i < length cs" "best st = Some (cs ! i)"
        "r2 (cs ! i) = Some (best_r_squared st)"
        "\<forall>j < i. \<forall>r. r2 (cs ! j) = Some r \<longrightarrow> r < best_r_squared st"
    unfolding first_max_def by blast
  then have "\<exists>i < length (cs @ [c]). best st = Some ((cs @ [c]) ! i) \<and>
          r2 ((cs @ [c]) ! i) = Some (best_r_squared st) \<and>
          (\<forall>j < i. \<forall>r. r2 ((cs @ [c]) ! j) = Some r \<longrightarrow> r < best_r_squared st)"
    by (rule first_max_leader_extends)
  then show ?thesis unfolding first_max_def using bound by - (rule conjI, assumption, rule disjI2, assumption)
qed

lemma first_max_take:
  assumes "first_max r2 cs st" and "r2 c = Some r" and "best_r_squared st < r"
    and "best st' = Some c" and "best_r_squared st' = r"
  shows "first_max r2 (cs @ [c]) st'"
proof -
  have old: "\<forall>j < length cs. \<forall>r'. r2 (cs ! j) = Some r' \<longrightarrow> r' < r"
    using assms(1,3) unfolding first_max_def by fastforce
  have bound: "\<forall>j < length (cs @ [c]). \<forall>r'. r2 ((cs @ [c]) ! j) = Some r' \<longrightarrow> r' \<le> best_r_squared st'"
    using old assms(2,5) by (auto simp: nth_append less_Suc_eq dest: less_imp_le)
  have "length cs < length (cs @ [c]) \<and> best st' = Some ((cs @ [c]) ! length cs) \<and>
          r2 ((cs @ [c]) ! length cs) = Some (best_r_squared st') \<and>
          (\<forall>j < length cs. \<forall>r'. r2 ((cs @ [c]) ! j) = Some r' \<longrightarrow> r' < best_r_squared st')"
    using old assms(2,4,5) by (auto simp: nth_append)
  then have "\<exists>i < length (cs @ [c]). best st' = Some ((cs @ [c]) ! i) \<and>
          r2 ((cs @ [c]) ! i) = Some (best_r_squared st') \<and>
          (\<forall>j < i. \<forall>r. r2 ((cs @ [c]) ! j) = Some r \<longrightarrow> r < best_r_squared st')"
    by blast
  then show ?thesis unfolding first_max_def using bound by - (rule conjI, assumption, rule disjI2, assumption)
qed

lemma first_max_fold:
  "first_max (candidate_r2 numeric sizes ts) cs
     (fold (try_candidate numeric sizes ts) cs initial_fit_state)"
proof (induction cs rule: rev_induct)
  case Nil
  show ?case by (simp add: first_max_init)
next
  case (snoc c cs)
  let ?st = "fold (try_candidate numeric sizes ts) cs initial_fit_state"
  let ?r2 = "candidate_r2 numeric sizes ts"
  show ?case
  proof (cases "?r2 c")
    case None
    then show ?thesis
      using first_max_skip [OF snoc.IH None] by (simp add: try_candidate_none)
  next
    case (Some r)
    show ?thesis
    proof (cases "r \<le> best_r_squared ?st")
      case True
      then show ?thesis
        using first_max_keep [OF snoc.IH Some candidate_r2_nonneg [OF Some] True]
        by (simp add: try_candidate_keep [OF Some True])
    next
      case False
      then have lt: "best_r_squared ?st < r" by simp
      show ?thesis
        using first_max_take [OF snoc.IH Some lt] try_candidate_take [OF Some lt]
        by simp
    qed
  qed
qed

lemma try_candidate_skips_exponential:
  assumes "20 < Max (set sizes)"
  shows "try_candidate (numeric(O_2n := g)) sizes ts c st = try_candidate numeric sizes ts c st"
  using assms by (simp add: try_candidate_def)

lemma all_candidates: "\<exists>j < length complexity_functions. complexity_functions ! j = c"
proof -
  have "c \<in> set complexity_functions" by (cases c) (simp_all add: complexity_functions_def)
  then show ?thesis by (auto simp: in_set_conv_nth)
qed

lemma fold_try_candidate_skips_exponential:
  assumes "20 < Max (set sizes)"
  shows "fold (try_candidate (numeric(O_2n := g)) sizes ts) cs st =
         fold (try_candidate numeric sizes ts) cs st"
  by (induction cs arbitrary: st) (simp_all add: try_candidate_skips_exponential [OF assms])

lemma analyze_skips_exponential:
  assumes "20 < Max (set sizes)"
  shows "analyze_time_complexity (numeric(O_2n := g)) sizes ts =
         analyze_time_complexity numeric sizes ts"
  unfolding analyze_time_complexity_def
  by (simp only: fold_try_candidate_skips_exponential [OF assms])

text \<open>With at least one candidate for which an \<open>R\<^sup>2\<close> is recorded, the label returned is
  the first candidate of the enumeration among those with the highest recorded \<open>R\<^sup>2\<close>.\<close>

lemma first_maximum_when_fitted:
  assumes "3 \<le> length input_sizes"
    and "candidate_r2 numeric input_sizes execution_times c0 = Some r0"
  shows "(\<exists>i < length complexity_functions.
            best_fit (analyze_time_complexity numeric input_sizes execution_times)
              = complexity_functions ! i
          \<and> candidate_r2 numeric input_sizes execution_times (complexity_functions ! i)
              = Some (r_squared (analyze_time_complexity numeric input_sizes execution_times))
          \<and> (\<forall>j < length complexity_functions. \<forall>r.
                candidate_r2 numeric input_sizes execution_times (complexity_functions ! j) = Some r
                \<longrightarrow> r \<le> r_squared (analyze_time_complexity numeric input_sizes execution_times)
                  \<and> (r = r_squared (analyze_time_complexity numeric input_sizes execution_times)
                       \<longrightarrow> i \<le> j)))
       \<and> (20 < Max (set input_sizes) \<longrightarrow>
            candidate_r2 numeric input_sizes execution_times O_2n = None
          \<and> best_fit (analyze_time_complexity numeric input_sizes execution_times) \<noteq> O_2n
          \<and> (\<forall>g. analyze_time_complexity (numeric(O_2n := g)) input_sizes execution_times
                  = analyze_time_complexity numeric input_sizes execution_times))"
proof -
  let ?r2 = "candidate_r2 numeric input_sizes execution_times"
  let ?st = "fold (try_candidate numeric input_sizes execution_times)
               complexity_functions initial_fit_state"
  let ?res = "analyze_time_complexity numeric input_sizes execution_times"
  have inv: "first_max ?r2 complexity_functions ?st" by (rule first_max_fold)
  obtain j0 where j0: "j0 < length complexity_functions" "complexity_functions ! j0 = c0"
    using all_candidates by blast
  have bound: "\<forall>j < length complexity_functions. \<forall>r.
      ?r2 (complexity_functions ! j) = Some r \<longrightarrow> r \<le> best_r_squared ?st"
    using inv unfolding first_max_def by (rule conjunct1)
  have "\<not> (\<forall>j < length complexity_functions. ?r2 (complexity_functions ! j) = None)"
    using j0 assms(2) by auto
  with inv obtain i where i: "i < length complexity_functions"
      "best ?st = Some (complexity_functions ! i)"
      "?r2 (complexity_functions ! i) = Some (best_r_squared ?st)"
      "\<forall>j < i. \<forall>r. ?r2 (complexity_functions ! j) = Some r \<longrightarrow> r < best_r_squared ?st"
    unfolding first_max_def by blast
  have res: "best_fit ?res = complexity_functions ! i" "r_squared ?res = best_r_squared ?st"
    using assms(1) i(2) by (simp_all add: analyze_time_complexity_def Let_def)
  have tie: "\<forall>j < length complexity_functions. \<forall>r.
      ?r2 (complexity_functions ! j) = Some r \<longrightarrow>
        r \<le> r_squared ?res \<and> (r = r_squared ?res \<longrightarrow> i \<le> j)"
  proof (intro allI impI)
    fix j r
    assume j: "j < length complexity_functions" and r: "?r2 (complexity_functions ! j) = Some r"
    have le: "r \<le> best_r_squared ?st" using bound j r by blast
    have "r = best_r_squared ?st \<longrightarrow> i \<le> j"
    proof
      assume e: "r = best_r_squared ?st"
      show "i \<le> j"
      proof (rule ccontr)
        assume "\<not> i \<le> j"
        then have "j < i" by simp
        then have "r < best_r_squared ?st" using i(4) r by blast
        with e show False by simp
      qed
    qed
    with le show "r \<le> r_squared ?res \<and> (r = r_squared ?res \<longrightarrow> i \<le> j)"
      by (simp add: res(2))
  qed
  have first: "\<exists>i < length complexity_functions.
            best_fit ?res = complexity_functions ! i
          \<and> ?r2 (complexity_functions ! i) = Some (r_squared ?res)
          \<and> (\<forall>j < length complexity_functions. \<forall>r.
                ?r2 (complexity_functions ! j) = Some r
                \<longrightarrow> r \<le> r_squared ?res \<and> (r = r_squared ?res \<longrightarrow> i \<le> j))"
    using i(1,3) res tie by auto
  have second: "20 < Max (set input_sizes) \<longrightarrow>
            ?r2 O_2n = None \<and> best_fit ?res \<noteq> O_2n
          \<and> (\<forall>g. analyze_time_complexity (numeric(O_2n := g)) input_sizes execution_times = ?res)"
  proof
    assume big: "20 < Max (set input_sizes)"
    have none: "?r2 O_2n = None" using big by (simp add: candidate_r2_def)
    have "best_fit ?res \<noteq> O_2n"
    proof
      assume "best_fit ?res = O_2n"
      then have "complexity_functions ! i = O_2n" using res(1) by simp
      with i(3) none show False by simp
    qed
    with none show "?r2 O_2n = None \<and> best_fit ?res \<noteq> O_2n
          \<and> (\<forall>g. analyze_time_complexity (numeric(O_2n := g)) input_sizes execution_times = ?res)"
      using analyze_skips_exponential [OF big] by simp
  qed
  from first second show ?thesis by (rule conjI)
qed

text \<open>When no candidate is fitted at all, the loop leaves the initial state and the
  result carries the default label with \<open>R\<^sup>2 = -1\<close>.\<close>

lemma nothing_fitted_default:
  assumes "3 \<le> length input_sizes"
    and "\<forall>c. candidate_r2 numeric input_sizes execution_times c = None"
  shows "best_fit (analyze_time_complexity numeric input_sizes execution_times) = O_n
       \<and> r_squared (analyze_time_complexity numeric input_sizes execution_times) = - 1
       \<and> coefficients (analyze_time_complexity numeric input_sizes execution_times) = []
       \<and> residuals (analyze_time_complexity numeric input_sizes execution_times) = []"
proof -
  have "fold (try_candidate numeric input_sizes execution_times) complexity_functions
          initial_fit_state = initial_fit_state"
    using assms(2) by (intro fold_unchanged) (simp add: try_candidate_none)
  then show ?thesis
    using assms(1) by (simp add: analyze_time_complexity_def initial_fit_state_def)
qed

lemma sample_fold:
  "fold (try_candidate sample_numeric [10, 100, 1000] [1, 2, 3]) complexity_functions
     initial_fit_state =
   \<lparr> best = Some O_n, best_r_squared = 81 / 100, best_coeffs = [2, 0],
     best_residuals = [- 1, - 2, - 3] \<rparr>"
  by (simp add: complexity_functions_def try_candidate_def sample_numeric_def
      initial_fit_state_def power2_eq_square)

text \<open>
  Claim C7, as amended. With at least three observations: if an \<open>R\<^sup>2\<close> is recorded for
  at least one candidate, the label returned is a candidate of the enumeration
  \<open>O(1), O(log n), O(n), O(n log n), O(n^2), O(n^3), O(2^n)\<close> whose recorded \<open>R\<^sup>2\<close> is the
  returned one, no recorded \<open>R\<^sup>2\<close> exceeds it, and every candidate that reaches it stands
  at the same or a later place of the enumeration. If no \<open>R\<^sup>2\<close> is recorded for any
  candidate, the default label \<open>O(n)\<close> is returned with \<open>r_squared = -1\<close>, no coefficients
  and no residuals. When the largest input size exceeds 20, nothing is recorded for
  \<open>O(2^n)\<close>, it is never the label returned, and the result does not depend on what the
  numeric libraries would have answered for it.
\<close>

theorem best_fit_is_first_maximum_or_default:
  assumes "3 \<le> length input_sizes"
  shows "((\<exists>c r. candidate_r2 numeric input_sizes execution_times c = Some r) \<longrightarrow>
           (\<exists>i < length complexity_functions.
              best_fit (analyze_time_complexity numeric input_sizes execution_times)
                = complexity_functions ! i
            \<and> candidate_r2 numeric input_sizes execution_times (complexity_functions ! i)
                = Some (r_squared (analyze_time_complexity numeric input_sizes execution_times))
            \<and> (\<forall>j < length complexity_functions. \<forall>r.
                  candidate_r2 numeric input_sizes execution_times (complexity_functions ! j) = Some r
                  \<longrightarrow> r \<le> r_squared (analyze_time_complexity numeric input_sizes execution_times)
                    \<and> (r = r_squared (analyze_time_complexity numeric input_sizes execution_times)
                         \<longrightarrow> i \<le> j))))
       \<and> ((\<forall>c. candidate_r2 numeric input_sizes execution_times c = None) \<longrightarrow>
            best_fit (analyze_time_complexity numeric input_sizes execution_times) = O_n
          \<and> r_squared (analyze_time_complexity numeric input_sizes execution_times) = - 1
          \<and> coefficients (analyze_time_complexity numeric input_sizes execution_times) = []
          \<and> residuals (analyze_time_complexity numeric input_sizes execution_times) = [])
       \<and> (20 < Max (set input_sizes) \<longrightarrow>
            candidate_r2 numeric input_sizes execution_times O_2n = None
          \<and> best_fit (analyze_time_complexity numeric input_sizes execution_times) \<noteq> O_2n
          \<and> (\<forall>g. analyze_time_complexity (numeric(O_2n := g)) input_sizes execution_times
                  = analyze_time_complexity numeric input_sizes execution_times))"
proof -
  let ?r2 = "candidate_r2 numeric input_sizes execution_times"
  let ?res = "analyze_time_complexity numeric input_sizes execution_times"
  have fitted: "(\<exists>c r. ?r2 c = Some r) \<longrightarrow>
           (\<exists>i < length complexity_functions.
              best_fit ?res = complexity_functions ! i
            \<and> ?r2 (complexity_functions ! i) = Some (r_squared ?res)
            \<and> (\<forall>j < length complexity_functions. \<forall>r.
                  ?r2 (complexity_functions ! j) = Some r
                  \<longrightarrow> r \<le> r_squared ?res \<and> (r = r_squared ?res \<longrightarrow> i \<le> j)))"
  proof
    assume "\<exists>c r. ?r2 c = Some r"
    then obtain c0 r0 where c0: "?r2 c0 = Some r0" by blast
    from first_maximum_when_fitted [OF assms c0]
    show "\<exists>i < length complexity_functions.
              best_fit ?res = complexity_functions ! i
            \<and> ?r2 (complexity_functions ! i) = Some (r_squared ?res)
            \<and> (\<forall>j < length complexity_functions. \<forall>r.
                  ?r2 (complexity_functions ! j) = Some r
                  \<longrightarrow> r \<le> r_squared ?res \<and> (r = r_squared ?res \<longrightarrow> i \<le> j))"
      by (rule conjunct1)
  qed
  have default: "(\<forall>c. ?r2 c = None) \<longrightarrow>
            best_fit ?res = O_n \<and> r_squared ?res = - 1
          \<and> coefficients ?res = [] \<and> residuals ?res = []"
  proof
    assume none: "\<forall>c. ?r2 c = None"
    from nothing_fitted_default [OF assms none]
    show "best_fit ?res = O_n \<and> r_squared ?res = - 1
          \<and> coefficients ?res = [] \<and> residuals ?res = []" .
  qed
  have skip: "20 < Max (set input_sizes) \<longrightarrow>
            ?r2 O_2n = None \<and> best_fit ?res \<noteq> O_2n
          \<and> (\<forall>g. analyze_time_complexity (numeric(O_2n := g)) input_sizes execution_times = ?res)"
  proof
    assume big: "20 < Max (set input_sizes)"
    show "?r2 O_2n = None \<and> best_fit ?res \<noteq> O_2n
          \<and> (\<forall>g. analyze_time_complexity (numeric(O_2n := g)) input_sizes execution_times = ?res)"
    proof (cases "\<exists>c r. ?r2 c = Some r")
      case True
      then obtain c0 r0 where c0: "?r2 c0 = Some r0" by blast
      from first_maximum_when_fitted [OF assms c0] big show ?thesis by blast
    next
      case False
      then have none: "\<forall>c. ?r2 c = None" by auto
      have "best_fit ?res = O_n" using nothing_fitted_default [OF assms none] by simp
      then have "best_fit ?res \<noteq> O_2n" by simp
      moreover have "?r2 O_2n = None" using none by simp
      ultimately show ?thesis using analyze_skips_exponential [OF big] by simp
    qed
  qed
  from fitted default skip show ?thesis by (intro conjI)
qed

theorem best_fit_is_first_maximum_or_default_witness:
  "3 \<le> length [10, 100, 1000 :: int]
   \<and> (20 :: int) < Max (set [10, 100, 1000])
   \<and> candidate_r2 sample_numeric [10, 100, 1000] [1, 2, 3] O_n = Some (81 / 100)
   \<and> candidate_r2 sample_numeric [10, 100, 1000] [1, 2, 3] O_n2 = Some (81 / 100)
   \<and> candidate_r2 sample_numeric [10, 100, 1000] [1, 2, 3] O_2n = None
   \<and> sample_numeric O_2n [10, 100, 1000] [1, 2, 3] = Fitted 1 0 1 [2, 4, 8]
   \<and> best_fit (analyze_time_complexity sample_numeric [10, 100, 1000] [1, 2, 3]) = O_n
   \<and> r_squared (analyze_time_complexity sample_numeric [10, 100, 1000] [1, 2, 3]) = 81 / 100
   \<and> best_fit (analyze_time_complexity sample_numeric [10, 100, 1000] [1, 2, 3]) \<noteq> O_2n
   \<and> 3 \<le> length [5, 5, 5 :: int]
   \<and> r_squared (analyze_time_complexity no_fit_numeric [5, 5, 5] [1, 2, 3]) = - 1
   \<and> best_fit (analyze_time_complexity no_fit_numeric [5, 5, 5] [1, 2, 3]) = O_n"
proof -
  have l: "3 \<le> length [10, 100, 1000 :: int]" by simp
  have m: "(20 :: int) < Max (set [10, 100, 1000])" by simp
  have a: "candidate_r2 sample_numeric [10, 100, 1000] [1, 2, 3] O_n = Some (81 / 100)"
    by (simp add: candidate_r2_def sample_numeric_def power2_eq_square)
  have b: "candidate_r2 sample_numeric [10, 100, 1000] [1, 2, 3] O_n2 = Some (81 / 100)"
    by (simp add: candidate_r2_def sample_numeric_def power2_eq_square)
  have c: "candidate_r2 sample_numeric [10, 100, 1000] [1, 2, 3] O_2n = None"
    by (simp add: candidate_r2_def)
  have d: "sample_numeric O_2n [10, 100, 1000] [1, 2, 3] = Fitted 1 0 1 [2, 4, 8]"
    by (simp add: sample_numeric_def)
  have e: "best_fit (analyze_time_complexity sample_numeric [10, 100, 1000] [1, 2, 3]) = O_n"
    "r_squared (analyze_time_complexity sample_numeric [10, 100, 1000] [1, 2, 3]) = 81 / 100"
    by (simp_all add: analyze_time_complexity_def sample_fold)
  have k: "3 \<le> length [5, 5, 5 :: int]" by simp
  have n: "\<forall>c. candidate_r2 no_fit_numeric [5, 5, 5] [1, 2, 3] c = None"
    by (simp add: candidate_r2_def no_fit_numeric_def)
  from best_fit_is_first_maximum_or_default [OF l, of sample_numeric "[1, 2, 3]"] m
  have f: "best_fit (analyze_time_complexity sample_numeric [10, 100, 1000] [1, 2, 3]) \<noteq> O_2n"
    by blast
  from best_fit_is_first_maximum_or_default [OF k, of no_fit_numeric "[1, 2, 3]"] n
  have g: "r_squared (analyze_time_complexity no_fit_numeric [5, 5, 5] [1, 2, 3]) = - 1"
    "best_fit (analyze_time_complexity no_fit_numeric [5, 5, 5] [1, 2, 3]) = O_n"
    by blast+
  from l m a b c d e f k g show ?thesis by blast
qed

text \<open>
  Claim C7 as stated fails where no regression can be computed for any candidate, as
  when all three input sizes are 5: no candidate has an \<open>R\<^sup>2\<close>, so the label returned,
  \<open>O(n)\<close>, is not a candidate with the highest \<open>R\<^sup>2\<close>; it is the default, and the
  \<open>r_squared\<close> returned is \<open>-1\<close>.
\<close>

theorem nothing_fitted_counterexample:
  "3 \<le> length [5, 5, 5 :: int]
   \<and> map (candidate_r2 no_fit_numeric [5, 5, 5] [1, 2, 3]) complexity_functions
       = [None, None, None, None, None, None, None]
   \<and> candidate_r2 no_fit_numeric [5, 5, 5] [1, 2, 3] O_n = None
   \<and> best_fit (analyze_time_complexity no_fit_numeric [5, 5, 5] [1, 2, 3]) = O_n
   \<and> r_squared (analyze_time_complexity no_fit_numeric [5, 5, 5] [1, 2, 3]) = - 1"
  by (simp add: candidate_r2_def no_fit_numeric_def complexity_functions_def
      analyze_time_complexity_def try_candidate_def initial_fit_state_def)

text \<open>
  Claim C8. With fewer than three observations \<open>analyze_time_complexity\<close> returns the
  default fit: label \<open>O(n)\<close>, \<open>R\<^sup>2 = 0\<close>, no coefficients, no residuals, an empty
  confidence interval. The model is a total function, so the call returns.
\<close>

theorem short_input_gives_default_fit:
  assumes "length input_sizes < 3"
  shows "analyze_time_complexity numeric input_sizes execution_times =
           \<lparr> best_fit = O_n, r_squared = 0, coefficients = [], residuals = [],
             confidence_interval = [] \<rparr>"
  using assms by (simp add: analyze_time_complexity_def)

theorem short_input_gives_default_fit_witness:
  "length [10, 100 :: int] < 3
   \<and> analyze_time_complexity sample_numeric [10, 100] [1, 2] =
       \<lparr> best_fit = O_n, r_squared = 0, coefficients = [], residuals = [],
         confidence_interval = [] \<rparr>
   \<and> r_squared (analyze_time_complexity sample_numeric [10, 100] [1, 2]) = 0"
proof -
  have l: "length [10, 100 :: int] < 3" by simp
  from short_input_gives_default_fit [OF l, of sample_numeric "[1, 2]"] l
  show ?thesis by simp
qed






section \<open>Proofs: sandbox executor\<close>

lemma count_runs_simps:
  "count_runs [] = 0"
  "count_runs (RunContainer s # tr) = Suc (count_runs tr)"
  "count_runs (MakeTempDir # tr) = count_runs tr"
  "count_runs (WriteFiles # tr) = count_runs tr"
  "count_runs (WaitContainer # tr) = count_runs tr"
  "count_runs (ReadLogs # tr) = count_runs tr"
  "count_runs (ReadStats # tr) = count_runs tr"
  "count_runs (StopContainer # tr) = count_runs tr"
  "count_runs (RemoveContainer # tr) = count_runs tr"
  "count_runs (RemoveTempDir # tr) = count_runs tr"
  "count_runs (tr @ tr') = count_runs tr + count_runs tr'"
  by (simp_all add: count_runs_def)

lemma monitor_makes_no_run: "count_runs (snd (monitor_execution w c)) = 0"
  by (simp add: monitor_execution_def count_runs_simps Let_def
      split: sum.splits prod.splits decoded.splits)

lemma monitor_calls:
  "monitor_execution w c = (outcome, calls) \<Longrightarrow> count_runs calls = 0"
  using monitor_makes_no_run [of w c] by simp

lemma cleanup_makes_no_run: "count_runs (cleanup_container c) = 0"
  by (simp add: cleanup_container_def count_runs_simps)

text \<open>What \<open>_monitor_execution\<close> hands back, by whether the container reported a payload.\<close>

lemma monitor_with_payload:
  assumes "reported_payload w c = Some p"
  shows "\<exists>out err status. fst (monitor_execution w c) =
           Inr (payload_result p
                  (collect_resource_metrics c (perf_counter w 0) (perf_counter w 1))
                  out err status)"
  using assms
  by (auto simp: reported_payload_def monitor_execution_def Let_def
      split: sum.splits prod.splits decoded.splits)

lemma monitor_without_payload:
  assumes "reported_payload w c = None"
  shows "\<exists>e. raised_in_sandbox w c = Some e \<and> fst (monitor_execution w c) = monitor_raised w e"
  using assms
  by (auto simp: reported_payload_def raised_in_sandbox_def monitor_execution_def Let_def
      split: sum.splits prod.splits decoded.splits)

lemma monitor_malformed:
  assumes "wait_reply c = Inr status" and "logs_reply c = Inr (out, err)"
    and "json_loads w (last (split_on (CHR ''\<newline>'') (strip out))) = Malformed"
  shows "reported_payload w c = Some parse_failure_payload"
  using assms by (simp add: reported_payload_def)

lemma execute_started:
  assumes "sandbox_started w c"
  shows "fst (execute_algorithm w ex sid) =
           (case fst (monitor_execution w c) of Inl e \<Rightarrow> failure_result e | Inr r \<Rightarrow> r)"
  using assms
  by (simp add: sandbox_started_def execute_algorithm_def create_container_def
      count_runs_simps Let_def split: prod.splits)

lemma execute_not_started:
  assumes "\<forall>c. \<not> sandbox_started w c"
  shows "\<exists>e. raised_before_start w = Some e
            \<and> fst (execute_algorithm w ex sid) = failure_result e"
  using assms
  by (auto simp: sandbox_started_def raised_before_start_def execute_algorithm_def
      create_container_def count_runs_simps split: preparation.splits sum.splits)

text \<open>
  Claim C2, as amended. For a result of \<open>execute_algorithm\<close> with \<open>success = False\<close>:
  when the sandbox did not start, the metrics are the empty metrics and the error is the
  text of the exception that kept it from starting; when it started and the container
  ran to completion with a payload (the one on its last line, or the parse-failure
  payload with the error \<open>Failed to parse execution result\<close>), the metrics are the ones
  collected from the container and the error is the payload's entry; when it started
  and monitoring it raised, the metrics are the empty metrics and the error is the text
  of that exception, after \<open>Container error:\<close> for a \<open>ContainerError\<close>. When collecting
  the statistics fails, the metrics are the empty metrics in every case.
\<close>

theorem failed_execution_metrics:
  assumes "execute_algorithm w ex sid = (res, ex', tr)"
    and "\<not> success res"
  shows "((\<forall>c. \<not> sandbox_started w c) \<longrightarrow>
            resource_metrics res = get_empty_metrics
          \<and> (\<exists>e. raised_before_start w = Some e \<and> error res = Some (str_of e)))
       \<and> (\<forall>c. sandbox_started w c \<longrightarrow>
            (case reported_payload w c of
               Some p \<Rightarrow>
                 resource_metrics res =
                   collect_resource_metrics c (perf_counter w 0) (perf_counter w 1)
                 \<and> error res = p_error p
             | None \<Rightarrow>
                 resource_metrics res = get_empty_metrics
                 \<and> (\<exists>e. raised_in_sandbox w c = Some e
                        \<and> error res =
                            Some (case e of
                                    ContainerError msg status \<Rightarrow> ''Container error: '' @ msg
                                  | OtherError msg \<Rightarrow> msg))))
       \<and> (\<forall>c status out err.
            sandbox_started w c \<and> wait_reply c = Inr status \<and> logs_reply c = Inr (out, err)
            \<and> json_loads w (last (split_on (CHR ''\<newline>'') (strip out))) = Malformed \<longrightarrow>
            error res = Some ''Failed to parse execution result'')
       \<and> (\<forall>c. sandbox_started w c \<and> stats_reply c = None \<longrightarrow>
            resource_metrics res = get_empty_metrics)"
proof -
  have before: "(\<forall>c. \<not> sandbox_started w c) \<longrightarrow>
            resource_metrics res = get_empty_metrics
          \<and> (\<exists>e. raised_before_start w = Some e \<and> error res = Some (str_of e))"
  proof
    assume "\<forall>c. \<not> sandbox_started w c"
    then obtain e where e: "raised_before_start w = Some e"
        "fst (execute_algorithm w ex sid) = failure_result e"
      using execute_not_started by blast
    then have "res = failure_result e" using assms(1) by simp
    then have "resource_metrics res = get_empty_metrics" "error res = Some (str_of e)"
      by (simp_all add: failure_result_def)
    with e(1) show "resource_metrics res = get_empty_metrics
          \<and> (\<exists>e. raised_before_start w = Some e \<and> error res = Some (str_of e))"
      by blast
  qed
  have after: "\<forall>c. sandbox_started w c \<longrightarrow>
            (case reported_payload w c of
               Some p \<Rightarrow>
                 resource_metrics res =
                   collect_resource_metrics c (perf_counter w 0) (perf_counter w 1)
                 \<and> error res = p_error p
             | None \<Rightarrow>
                 resource_metrics res = get_empty_metrics
                 \<and> (\<exists>e. raised_in_sandbox w c = Some e
                        \<and> error res =
                            Some (case e of
                                    ContainerError msg status \<Rightarrow> ''Container error: '' @ msg
                                  | OtherError msg \<Rightarrow> msg)))"
  proof (intro allI impI)
    fix c assume st: "sandbox_started w c"
    have res: "res = (case fst (monitor_execution w c) of Inl e \<Rightarrow> failure_result e | Inr r \<Rightarrow> r)"
      using execute_started [OF st, of ex sid] assms(1) by simp
    show "case reported_payload w c of
               Some p \<Rightarrow>
                 resource_metrics res =
                   collect_resource_metrics c (perf_counter w 0) (perf_counter w 1)
                 \<and> error res = p_error p
             | None \<Rightarrow>
                 resource_metrics res = get_empty_metrics
                 \<and> (\<exists>e. raised_in_sandbox w c = Some e
                        \<and> error res =
                            Some (case e of
                                    ContainerError msg status \<Rightarrow> ''Container error: '' @ msg
                                  | OtherError msg \<Rightarrow> msg))"
    proof (cases "reported_payload w c")
      case (Some p)
      then obtain out err status where "fst (monitor_execution w c) =
           Inr (payload_result p
                  (collect_resource_metrics c (perf_counter w 0) (perf_counter w 1))
                  out err status)"
        using monitor_with_payload by blast
      then show ?thesis using Some res by (simp add: payload_result_def)
    next
      case None
      then obtain e where r: "raised_in_sandbox w c = Some e"
        and m: "fst (monitor_execution w c) = monitor_raised w e"
        using monitor_without_payload by blast
      have "resource_metrics res = get_empty_metrics
          \<and> error res = Some (case e of
                                ContainerError msg status \<Rightarrow> ''Container error: '' @ msg
                              | OtherError msg \<Rightarrow> msg)"
      proof (cases e)
        case (ContainerError msg status)
        then show ?thesis
          using res m by (simp add: monitor_raised_def container_error_result_def)
      next
        case (OtherError msg)
        then show ?thesis
          using res m by (simp add: monitor_raised_def failure_result_def)
      qed
      with r show ?thesis using None by auto
    qed
  qed
  have malformed: "\<forall>c status out err.
            sandbox_started w c \<and> wait_reply c = Inr status \<and> logs_reply c = Inr (out, err)
            \<and> json_loads w (last (split_on (CHR ''\<newline>'') (strip out))) = Malformed \<longrightarrow>
            error res = Some ''Failed to parse execution result''"
  proof (intro allI impI)
    fix c status out err
    assume h: "sandbox_started w c \<and> wait_reply c = Inr status \<and> logs_reply c = Inr (out, err)
            \<and> json_loads w (last (split_on (CHR ''\<newline>'') (strip out))) = Malformed"
    then have st: "sandbox_started w c" by simp
    have p: "reported_payload w c = Some parse_failure_payload"
      using h by (intro monitor_malformed [of c status out err w]) simp_all
    from after st have "case reported_payload w c of
               Some p \<Rightarrow>
                 resource_metrics res =
                   collect_resource_metrics c (perf_counter w 0) (perf_counter w 1)
                 \<and> error res = p_error p
             | None \<Rightarrow>
                 resource_metrics res = get_empty_metrics
                 \<and> (\<exists>e. raised_in_sandbox w c = Some e
                        \<and> error res =
                            Some (case e of
                                    ContainerError msg status \<Rightarrow> ''Container error: '' @ msg
                                  | OtherError msg \<Rightarrow> msg))"
      by blast
    then show "error res = Some ''Failed to parse execution result''"
      by (simp add: p parse_failure_payload_def)
  qed
  have nostats: "\<forall>c. sandbox_started w c \<and> stats_reply c = None \<longrightarrow>
            resource_metrics res = get_empty_metrics"
  proof (intro allI impI)
    fix c assume h: "sandbox_started w c \<and> stats_reply c = None"
    then have st: "sandbox_started w c" and none: "stats_reply c = None" by simp_all
    have res: "res = (case fst (monitor_execution w c) of Inl e \<Rightarrow> failure_result e | Inr r \<Rightarrow> r)"
      using execute_started [OF st, of ex sid] assms(1) by simp
    have empty: "\<And>a b. collect_resource_metrics c a b = get_empty_metrics"
      using none by (simp add: collect_resource_metrics_def)
    show "resource_metrics res = get_empty_metrics"
      unfolding res
      by (auto simp: monitor_execution_def monitor_raised_def Let_def payload_result_def empty
          failure_result_def container_error_result_def
          split: sum.splits prod.splits decoded.splits exn.splits)
  qed
  from before after malformed nostats show ?thesis by (intro conjI)
qed

text \<open>
  Claim C2 as stated fails: in \<open>world_crashed\<close> the sandbox has started and waiting for
  the container raises \<open>ContainerError\<close>; in \<open>world_timed_out\<close> it has started and the
  wait runs into the timeout. Both results have \<open>success = False\<close> and the empty metrics.
\<close>

theorem container_error_counterexample:
  "sandbox_started world_crashed sandbox_crashed
   \<and> \<not> success (fst (execute_algorithm world_crashed no_executions ''s1''))
   \<and> resource_metrics (fst (execute_algorithm world_crashed no_executions ''s1''))
       = get_empty_metrics
   \<and> error (fst (execute_algorithm world_crashed no_executions ''s1''))
       = Some ''Container error: exit status 137''
   \<and> sandbox_started world_timed_out sandbox_timed_out
   \<and> \<not> success (fst (execute_algorithm world_timed_out no_executions ''s1''))
   \<and> resource_metrics (fst (execute_algorithm world_timed_out no_executions ''s1''))
       = get_empty_metrics
   \<and> error (fst (execute_algorithm world_timed_out no_executions ''s1''))
       = Some ''Read timed out.''"
  by (simp add: sandbox_started_def world_crashed_def sandbox_crashed_def world_timed_out_def
      sandbox_timed_out_def execute_algorithm_def create_container_def count_runs_simps
      monitor_execution_def monitor_raised_def container_error_result_def failure_result_def)

text \<open>The error text of a failed result can be empty: the algorithm raised an exception
  without text, and the payload carries \<open>str(e)\<close>.\<close>

lemma error_text_can_be_empty:
  "\<not> success (fst (execute_algorithm world_silent no_executions ''s1''))
   \<and> error (fst (execute_algorithm world_silent no_executions ''s1'')) = Some []"
  by (simp add: world_silent_def sandbox_raised_def silent_payload_def execute_algorithm_def
      create_container_def count_runs_simps monitor_execution_def payload_result_def Let_def)

lemma raised_run:
  "fst (execute_algorithm world_raised no_executions ''s1'') =
     payload_result raised_payload (collect_resource_metrics sandbox_raised 0 1) ''{...}'' [] 0"
  by (simp add: world_raised_def sandbox_raised_def execute_algorithm_def
      create_container_def count_runs_simps monitor_execution_def Let_def)

lemma crashed_run:
  "fst (execute_algorithm world_crashed no_executions ''s1'') =
     container_error_result ''exit status 137'' 137 1"
  by (simp add: world_crashed_def sandbox_crashed_def execute_algorithm_def
      create_container_def count_runs_simps monitor_execution_def monitor_raised_def)

lemma refused_run:
  "fst (execute_algorithm world_refused_once no_executions ''s1'') =
     failure_result (OtherError ''cannot connect to the docker daemon'')"
  by (simp add: world_refused_once_def execute_algorithm_def create_container_def
      count_runs_simps)

theorem failed_execution_metrics_witness:
  "sandbox_started world_raised sandbox_raised
   \<and> reported_payload world_raised sandbox_raised = Some raised_payload
   \<and> \<not> success (fst (execute_algorithm world_raised no_executions ''s1''))
   \<and> resource_metrics (fst (execute_algorithm world_raised no_executions ''s1''))
       = collect_resource_metrics sandbox_raised 0 1
   \<and> error (fst (execute_algorithm world_raised no_executions ''s1'')) = Some ''division by zero''
   \<and> collect_resource_metrics sandbox_raised 0 1 =
       \<lparr> cpu_percent = 40, memory_usage_mb = 2, memory_limit_mb = 128, rm_execution_time = 1,
         peak_memory_mb = 2, network_io = PDict [], disk_io = PDict [] \<rparr>
   \<and> sandbox_started world_crashed sandbox_crashed
   \<and> raised_in_sandbox world_crashed sandbox_crashed
       = Some (ContainerError ''exit status 137'' 137)
   \<and> \<not> success (fst (execute_algorithm world_crashed no_executions ''s1''))
   \<and> error (fst (execute_algorithm world_crashed no_executions ''s1''))
       = Some ''Container error: exit status 137''
   \<and> raised_before_start world_refused_once
       = Some (OtherError ''cannot connect to the docker daemon'')
   \<and> \<not> success (fst (execute_algorithm world_refused_once no_executions ''s1''))
   \<and> error (fst (execute_algorithm world_refused_once no_executions ''s1''))
       = Some ''cannot connect to the docker daemon''"
proof -
  let ?run = "execute_algorithm world_raised no_executions ''s1''"
  let ?crash = "execute_algorithm world_crashed no_executions ''s1''"
  let ?refuse = "execute_algorithm world_refused_once no_executions ''s1''"
  have st: "sandbox_started world_raised sandbox_raised"
    by (simp add: sandbox_started_def world_raised_def)
  have rp: "reported_payload world_raised sandbox_raised = Some raised_payload"
    by (simp add: reported_payload_def world_raised_def sandbox_raised_def)
  have f: "\<not> success (fst ?run)"
    by (simp add: raised_run payload_result_def raised_payload_def)
  have pc: "perf_counter world_raised 0 = 0" "perf_counter world_raised 1 = 1"
    "perf_counter world_raised (Suc 0) = 1"
    by (simp_all add: world_raised_def)
  have m: "collect_resource_metrics sandbox_raised 0 1 =
       \<lparr> cpu_percent = 40, memory_usage_mb = 2, memory_limit_mb = 128, rm_execution_time = 1,
         peak_memory_mb = 2, network_io = PDict [], disk_io = PDict [] \<rparr>"
    by (simp add: collect_resource_metrics_def sandbox_raised_def sample_stats_def)
  have e: "?run = (fst ?run, fst (snd ?run), snd (snd ?run))" by simp
  from failed_execution_metrics [OF e f]
  have "\<forall>c. sandbox_started world_raised c \<longrightarrow>
            (case reported_payload world_raised c of
               Some p \<Rightarrow>
                 resource_metrics (fst ?run) =
                   collect_resource_metrics c (perf_counter world_raised 0)
                     (perf_counter world_raised 1)
                 \<and> error (fst ?run) = p_error p
             | None \<Rightarrow>
                 resource_metrics (fst ?run) = get_empty_metrics
                 \<and> (\<exists>e. raised_in_sandbox world_raised c = Some e
                        \<and> error (fst ?run) =
                            Some (case e of
                                    ContainerError msg status \<Rightarrow> ''Container error: '' @ msg
                                  | OtherError msg \<Rightarrow> msg)))"
    by (rule conjunct1 [OF conjunct2])
  with st have "case reported_payload world_raised sandbox_raised of
               Some p \<Rightarrow>
                 resource_metrics (fst ?run) =
                   collect_resource_metrics sandbox_raised (perf_counter world_raised 0)
                     (perf_counter world_raised 1)
                 \<and> error (fst ?run) = p_error p
             | None \<Rightarrow>
                 resource_metrics (fst ?run) = get_empty_metrics
                 \<and> (\<exists>e. raised_in_sandbox world_raised sandbox_raised = Some e
                        \<and> error (fst ?run) =
                            Some (case e of
                                    ContainerError msg status \<Rightarrow> ''Container error: '' @ msg
                                  | OtherError msg \<Rightarrow> msg))"
    by blast
  then have "resource_metrics (fst ?run)
          = collect_resource_metrics sandbox_raised (perf_counter world_raised 0)
              (perf_counter world_raised 1)
        \<and> error (fst ?run) = p_error raised_payload"
    by (simp add: rp)
  then have 1: "resource_metrics (fst ?run) = collect_resource_metrics sandbox_raised 0 1"
    "error (fst ?run) = Some ''division by zero''"
    by (simp_all add: pc raised_payload_def)
  have stc: "sandbox_started world_crashed sandbox_crashed"
    by (simp add: sandbox_started_def world_crashed_def)
  have rc: "reported_payload world_crashed sandbox_crashed = None"
    by (simp add: reported_payload_def sandbox_crashed_def)
  have ric: "raised_in_sandbox world_crashed sandbox_crashed
       = Some (ContainerError ''exit status 137'' 137)"
    by (simp add: raised_in_sandbox_def sandbox_crashed_def)
  have fc: "\<not> success (fst ?crash)"
    by (simp add: crashed_run container_error_result_def)
  have ec: "?crash = (fst ?crash, fst (snd ?crash), snd (snd ?crash))" by simp
  from failed_execution_metrics [OF ec fc]
  have "\<forall>c. sandbox_started world_crashed c \<longrightarrow>
            (case reported_payload world_crashed c of
               Some p \<Rightarrow>
                 resource_metrics (fst ?crash) =
                   collect_resource_metrics c (perf_counter world_crashed 0)
                     (perf_counter world_crashed 1)
                 \<and> error (fst ?crash) = p_error p
             | None \<Rightarrow>
                 resource_metrics (fst ?crash) = get_empty_metrics
                 \<and> (\<exists>e. raised_in_sandbox world_crashed c = Some e
                        \<and> error (fst ?crash) =
                            Some (case e of
                                    ContainerError msg status \<Rightarrow> ''Container error: '' @ msg
                                  | OtherError msg \<Rightarrow> msg)))"
    by (rule conjunct1 [OF conjunct2])
  with stc have "case reported_payload world_crashed sandbox_crashed of
               Some p \<Rightarrow>
                 resource_metrics (fst ?crash) =
                   collect_resource_metrics sandbox_crashed (perf_counter world_crashed 0)
                     (perf_counter world_crashed 1)
                 \<and> error (fst ?crash) = p_error p
             | None \<Rightarrow>
                 resource_metrics (fst ?crash) = get_empty_metrics
                 \<and> (\<exists>e. raised_in_sandbox world_crashed sandbox_crashed = Some e
                        \<and> error (fst ?crash) =
                            Some (case e of
                                    ContainerError msg status \<Rightarrow> ''Container error: '' @ msg
                                  | OtherError msg \<Rightarrow> msg))"
    by blast
  then have 2: "error (fst ?crash) = Some ''Container error: exit status 137''"
    by (simp add: rc ric)
  have ns: "\<forall>c. \<not> sandbox_started world_refused_once c"
    by (simp add: sandbox_started_def world_refused_once_def)
  have rb: "raised_before_start world_refused_once
       = Some (OtherError ''cannot connect to the docker daemon'')"
    by (simp add: raised_before_start_def world_refused_once_def)
  have fr: "\<not> success (fst ?refuse)"
    by (simp add: refused_run failure_result_def)
  have er: "?refuse = (fst ?refuse, fst (snd ?refuse), snd (snd ?refuse))" by simp
  from failed_execution_metrics [OF er fr]
  have "(\<forall>c. \<not> sandbox_started world_refused_once c) \<longrightarrow>
            resource_metrics (fst ?refuse) = get_empty_metrics
          \<and> (\<exists>e. raised_before_start world_refused_once = Some e
                 \<and> error (fst ?refuse) = Some (str_of e))"
    by (rule conjunct1)
  with ns have "\<exists>e. raised_before_start world_refused_once = Some e
                 \<and> error (fst ?refuse) = Some (str_of e)"
    by blast
  then have 3: "error (fst ?refuse) = Some ''cannot connect to the docker daemon''"
    by (simp add: rb)
  from st rp f 1 m stc ric fc 2 rb fr 3 show ?thesis by blast
qed

text \<open>
  Claim C5, as amended. One call of \<open>execute_algorithm\<close> calls \<open>containers.run\<close> at most
  once, and exactly once when the preparation went through. When that one call raises,
  the result is the failure result with the exception's text (\<open>success = False\<close>, exit
  code \<open>-1\<close>) and the executor is unchanged: creation is not retried, and neither is
  anything else.
\<close>

theorem creation_is_attempted_once:
  assumes "execute_algorithm w ex sid = (res, ex', tr)"
  shows "count_runs tr \<le> 1
       \<and> (prepare_reply w = Prepared \<longrightarrow> count_runs tr = 1)
       \<and> (\<forall>e. prepare_reply w = Prepared \<and> run_reply w 0 = Inl e \<longrightarrow>
              res = failure_result e \<and> ex' = ex \<and> count_runs tr = 1)"
  using assms
  by (auto simp: execute_algorithm_def create_container_def count_runs_simps Let_def
      cleanup_makes_no_run
      split: preparation.splits sum.splits prod.splits dest: monitor_calls)

theorem creation_is_attempted_once_witness:
  "prepare_reply world_refused_once = Prepared
   \<and> run_reply world_refused_once 0 = Inl (OtherError ''cannot connect to the docker daemon'')
   \<and> fst (execute_algorithm world_refused_once no_executions ''s1'')
       = failure_result (OtherError ''cannot connect to the docker daemon'')
   \<and> count_runs (snd (snd (execute_algorithm world_refused_once no_executions ''s1''))) = 1"
proof -
  let ?run = "execute_algorithm world_refused_once no_executions ''s1''"
  have p: "prepare_reply world_refused_once = Prepared"
    and r: "run_reply world_refused_once 0 = Inl (OtherError ''cannot connect to the docker daemon'')"
    by (simp_all add: world_refused_once_def)
  have e: "?run = (fst ?run, fst (snd ?run), snd (snd ?run))" by simp
  from creation_is_attempted_once [OF e] p r
  have "fst ?run = failure_result (OtherError ''cannot connect to the docker daemon'')
        \<and> count_runs (snd (snd ?run)) = 1"
    by blast
  with p r show ?thesis by blast
qed

text \<open>
  Claim C5 as stated fails: in \<open>world_refused_once\<close> the first \<open>containers.run\<close> raises
  and a second one would return a container; the call makes one attempt, not two.
\<close>

theorem no_retry_counterexample:
  "run_reply world_refused_once 0 = Inl (OtherError ''cannot connect to the docker daemon'')
   \<and> run_reply world_refused_once 1 = Inr sandbox_raised
   \<and> count_runs (snd (snd (execute_algorithm world_refused_once no_executions ''s1''))) = 1
   \<and> snd (snd (execute_algorithm world_refused_once no_executions ''s1''))
       = [MakeTempDir, WriteFiles, RunContainer ''s1'', RemoveTempDir]
   \<and> count_runs (snd (snd (execute_algorithm world_refused_once no_executions ''s1''))) \<noteq> 2"
  by (simp add: world_refused_once_def execute_algorithm_def create_container_def
      count_runs_simps)

section \<open>Proofs: test harness\<close>

lemma two_sum_suite_sizes:
  "length (test_cases two_sum_suite) = 8"
  "benchmarks two_sum_suite = Some [\<lparr> input_size = 100, iterations = 1000 \<rparr>,
              \<lparr> input_size = 500, iterations = 500 \<rparr>,
              \<lparr> input_size = 1000, iterations = 100 \<rparr>,
              \<lparr> input_size = 5000, iterations = 20 \<rparr>,
              \<lparr> input_size = 10000, iterations = 10 \<rparr>]"
  by (simp_all add: two_sum_suite_def new_TestSuite_def)

lemma select_two_sum: "select_suite loaded_test_suites ''two_sum'' None = Inr two_sum_suite"
  by (simp add: select_suite_def loaded_test_suites_def)

lemma execute_tests_total:
  assumes "execute_tests container suite = Inr r"
  shows "total_tests r = int (length (test_cases suite))
           + int (length (case benchmarks suite of None \<Rightarrow> [] | Some bs \<Rightarrow> bs)) + 2"
  using assms
  by (auto simp: execute_tests_def Let_def split: sum.splits prod.splits)

lemma completed_run_total_tests:
  assumes "select_suite suites algorithm_name custom = Inr suite"
    and "prepare_tests w = Prepared" and "run_tests w = Inr container"
    and "execute_tests container suite = Inr r"
  shows "run_test_suite w suites algorithm_name custom = Inr r
       \<and> total_tests r = int (length (test_cases suite))
           + int (length (case benchmarks suite of None \<Rightarrow> [] | Some bs \<Rightarrow> bs)) + 2"
  using assms execute_tests_total [OF assms(4)] by (simp add: run_test_suite_def)

lemma failed_launch_total_tests:
  assumes "select_suite suites algorithm_name custom = Inr suite"
    and "prepare_tests w = Prepared" and "run_tests w = Inl e"
  shows "run_test_suite w suites algorithm_name custom = Inr (failed_suite_result suite algorithm_name)"
  using assms by (simp add: run_test_suite_def)

text \<open>
  Claim C1 gives \<open>total_tests\<close> as the number of declared cases plus the number of
  declared benchmarks plus 2 on every path. A run that completes has this total
  (\<open>completed_run_total_tests\<close>). A run whose container cannot be launched reports the
  number of declared cases alone: for the stored \<open>two_sum\<close> suite, with 8 cases and 5
  benchmarks, the total is 8 and not 15.
\<close>

theorem failed_launch_two_sum:
  "run_test_suite world_launch_fails loaded_test_suites ''two_sum'' None
     = Inr (failed_suite_result two_sum_suite ''two_sum'')
   \<and> total_tests (failed_suite_result two_sum_suite ''two_sum'') = 8
   \<and> int (length (test_cases two_sum_suite))
       + int (length (case benchmarks two_sum_suite of None \<Rightarrow> [] | Some bs \<Rightarrow> bs)) + 2 = 15"
proof -
  have "run_test_suite world_launch_fails loaded_test_suites ''two_sum'' None
     = Inr (failed_suite_result two_sum_suite ''two_sum'')"
    by (rule failed_launch_total_tests [OF select_two_sum])
       (simp_all add: world_launch_fails_def)
  then show ?thesis
    by (simp add: failed_suite_result_def two_sum_suite_sizes)
qed

text \<open>The same suite on a run that completes.\<close>

lemma completed_two_sum:
  "\<exists>r. run_test_suite world_tests_run loaded_test_suites ''two_sum'' None = Inr r
       \<and> total_tests r = 15"
proof -
  obtain r where r: "execute_tests quiet_container two_sum_suite = Inr r"
    by (simp add: execute_tests_def quiet_container_def parse_test_results_def Let_def)
  have "run_test_suite world_tests_run loaded_test_suites ''two_sum'' None = Inr r
       \<and> total_tests r = int (length (test_cases two_sum_suite))
           + int (length (case benchmarks two_sum_suite of None \<Rightarrow> [] | Some bs \<Rightarrow> bs)) + 2"
    by (rule completed_run_total_tests [OF select_two_sum _ _ r])
       (simp_all add: world_tests_run_def)
  then show ?thesis by (simp add: two_sum_suite_sizes)
qed

end
